theory Spec2Isabelle
  imports Complex_Main "HOL-Library.Sublist"
begin

section \<open>Column grouping\<close>

text \<open>
  \<^verbatim>\<open>create_dashboard\<close> (\<^verbatim>\<open>hdfc_viz.py\<close>) builds its column groups, when none are given, by
  \<^verbatim>\<open>
  if len(df.columns) <= 4:
      column_groups = [df.columns.tolist()]
  else:
      column_groups = []
      cols = df.columns.tolist()
      for i in range(0, len(cols), 4):
          group = cols[i:i+4]
          if group:
              column_groups.append(group)
  \<close>
  and \<^verbatim>\<open>main\<close> (\<^verbatim>\<open>generate_dashboard.py\<close>) runs the loop alone, without the test on the
  number of columns. The loop over \<^verbatim>\<open>range(0, len(cols), 4)\<close> is the recursion
  \<open>group_loop\<close> on the loop index; it ends because the index grows by four.
\<close>

function group_loop :: "'a list \<Rightarrow> nat \<Rightarrow> 'a list list \<Rightarrow> 'a list list" where
  "group_loop cols i column_groups =
     (if i < length cols then
        (let group = take 4 (drop i cols)
         in group_loop cols (i + 4)
              (if group \<noteq> [] then column_groups @ [group] else column_groups))
      else column_groups)"
  by pat_completeness auto
termination
  by (relation "measure (\<lambda>(cols, i, column_groups). length cols - i)") auto

declare group_loop.simps [simp del]

definition auto_column_groups :: "'a list \<Rightarrow> 'a list list" where
  "auto_column_groups cols =
     (if length cols \<le> 4 then [cols] else group_loop cols 0 [])"

definition main_column_groups :: "'a list \<Rightarrow> 'a list list" where
  "main_column_groups cols = group_loop cols 0 []"

section \<open>Values, exceptions and number formatting\<close>

text \<open>
  The exceptions the modelled code raises are values: a function that can raise returns
  \<open>py_error + 'a\<close>, with \<open>Inl\<close> for the exception. All of them are instances of Python's
  \<^verbatim>\<open>Exception\<close>. \<open>ValueError msg xs\<close> is a ValueError raised by the modelled code
  itself, whose message is \<open>msg\<close> followed by the printed list \<open>xs\<close>; \<open>LibraryError\<close>
  stands for an exception raised inside pandas or matplotlib, with its class name and
  message, so \<open>LibraryError ''ValueError'' msg\<close> is a ValueError too.
\<close>

datatype py_error =
    ValueError string "string list"
  | IndexError
  | ZeroDivisionError
  | OverflowError
  | TypeError
  | LibraryError string string

text \<open>
  A Python float is not-a-number, an infinity, or a finite number. The finite ones are
  taken with their exact value, a rational, so that every comparison of the source is
  the comparison of the exact values.
\<close>

datatype pyfloat = NaN | PInf | NInf | Fin rat

text \<open>\<^verbatim>\<open>round(x)\<close> of Python 3 rounds to the nearest integer, a tie to the even one.\<close>

definition py_round :: "rat \<Rightarrow> int" where
  "py_round x =
     (let f = \<lfloor>x\<rfloor>; d = x - of_int f
      in if d < 1 / 2 then f
         else if 1 / 2 < d then f + 1
         else if even f then f else f + 1)"

text \<open>\<^verbatim>\<open>int(x)\<close> drops the fraction, towards zero.\<close>

definition py_int :: "rat \<Rightarrow> int" where
  "py_int x = (if 0 \<le> x then \<lfloor>x\<rfloor> else \<lceil>x\<rceil>)"

text \<open>
  The strings \<^verbatim>\<open>_format_value\<close> returns are kept as the format they come from:
  \<open>Text_NA\<close> is \<^verbatim>\<open>"N/A"\<close>, \<open>Percent p v\<close> is \<^verbatim>\<open>f'{v:.{p}%}'\<close>, \<open>Grouped n\<close> is
  \<^verbatim>\<open>f'{n:,}'\<close> for the integer \<open>n = int(v)\<close>, and \<open>Fixed p v\<close> is \<^verbatim>\<open>f'{v:.{p}f}'\<close>.
\<close>

datatype rendering =
    Text_NA
  | Percent nat pyfloat
  | Grouped int
  | Fixed nat pyfloat

text \<open>
  \<^verbatim>\<open>
  def _format_value(value, is_percentage=False, precision=None):
      if pd.isna(value):
          return "N/A"
      if is_percentage:
          if precision is None:
              if abs(value) < 0.01: precision = 2
              else: precision = 1
          return f'{value:.{precision}%}'
      if abs(value - round(value)) < 0.01 and value >= 10:
          return f'{int(value):,}'
      if precision is None:
          if abs(value) < 0.01: precision = 4
          elif abs(value) < 0.1: precision = 3
          elif abs(value) < 1: precision = 2
          elif abs(value) < 10: precision = 1
          else: precision = 0 if abs(value) % 1 < 0.01 else 2
      if precision == 0:
          return f'{int(value):,}'
      else:
          return f'{value:.{precision}f}'
  \<close>
  On an infinity that is not a percentage, \<^verbatim>\<open>round(value)\<close> is the first thing
  evaluated, and it raises OverflowError.
\<close>

definition magnitude_precision :: "rat \<Rightarrow> nat" where
  "magnitude_precision x =
     (if \<bar>x\<bar> < 1 / 100 then 4
      else if \<bar>x\<bar> < 1 / 10 then 3
      else if \<bar>x\<bar> < 1 then 2
      else if \<bar>x\<bar> < 10 then 1
      else if frac \<bar>x\<bar> < 1 / 100 then 0 else 2)"

fun format_value :: "pyfloat \<Rightarrow> bool \<Rightarrow> nat option \<Rightarrow> py_error + rendering" where
  "format_value NaN is_percentage precision = Inr Text_NA"
| "format_value (Fin x) True precision =
     Inr (Percent (case precision of
                     None \<Rightarrow> if \<bar>x\<bar> < 1 / 100 then 2 else 1
                   | Some p \<Rightarrow> p) (Fin x))"
| "format_value v True precision =
     Inr (Percent (case precision of None \<Rightarrow> 1 | Some p \<Rightarrow> p) v)"
| "format_value (Fin x) False precision =
     (if \<bar>x - of_int (py_round x)\<bar> < 1 / 100 \<and> 10 \<le> x then Inr (Grouped (py_int x))
      else
        (let p = (case precision of None \<Rightarrow> magnitude_precision x | Some p \<Rightarrow> p)
         in if p = 0 then Inr (Grouped (py_int x)) else Inr (Fixed p (Fin x))))"
| "format_value v False precision = Inl OverflowError"



section \<open>Colour schemes and background styles\<close>

text \<open>
  A colour is a colour string of a palette, or a sample of a two-colour gradient:
  \<open>Gradient a b i d\<close> is the value of
  \<^verbatim>\<open>LinearSegmentedColormap.from_list("custom", [a, b])(i / float(d))\<close>, an RGBA tuple of
  matplotlib that is not evaluated here.
\<close>

datatype color = Color string | Gradient color color nat nat

definition COLOR_SCHEMES :: "(string \<times> color list) list" where
  "COLOR_SCHEMES =
    [(''corporate'', map Color [''#003f5c'', ''#2f4b7c'', ''#665191'', ''#a05195'',
                                ''#d45087'', ''#f95d6a'', ''#ff7c43'', ''#ffa600'']),
     (''vibrant'', map Color [''#1f77b4'', ''#ff7f0e'', ''#2ca02c'', ''#d62728'',
                              ''#9467bd'', ''#8c564b'', ''#e377c2'', ''#7f7f7f'']),
     (''pastel'', map Color [''#66c2a5'', ''#fc8d62'', ''#8da0cb'', ''#e78ac3'',
                             ''#a6d854'', ''#ffd92f'', ''#e5c494'', ''#b3b3b3'']),
     (''hdfc_brand'', map Color [''#ED232A'', ''#0033A0'', ''#808080'', ''#FF6600'',
                                 ''#003366'', ''#FFCC00'', ''#00CCFF'', ''#009900'']),
     (''gradient_blue'', map Color [''#f7fbff'', ''#deebf7'', ''#c6dbef'', ''#9ecae1'',
                                    ''#6baed6'', ''#4292c6'', ''#2171b5'', ''#084594'']),
     (''gradient_red'', map Color [''#fff5f0'', ''#fee0d2'', ''#fcbba1'', ''#fc9272'',
                                   ''#fb6a4a'', ''#ef3b2c'', ''#cb181d'', ''#99000d''])]"

record style_settings =
  style :: string
  grid_alpha :: rat

definition BG_STYLES :: "(string \<times> style_settings) list" where
  "BG_STYLES =
    [(''default'', \<lparr>style = ''whitegrid'', grid_alpha = 3 / 10\<rparr>),
     (''minimal'', \<lparr>style = ''white'', grid_alpha = 0\<rparr>),
     (''classic'', \<lparr>style = ''darkgrid'', grid_alpha = 1 / 10\<rparr>),
     (''presentation'', \<lparr>style = ''white'', grid_alpha = 2 / 10\<rparr>)]"

text \<open>
  \<^verbatim>\<open>d[key]\<close> on a dictionary written as an association list; both dictionaries hold the
  keys the code reads, and a missing key would be Python's KeyError, a \<open>LibraryError\<close>
  here.
\<close>

definition dict_item :: "(string \<times> 'a) list \<Rightarrow> string \<Rightarrow> py_error + 'a" where
  "dict_item d key =
     (case map_of d key of
        None \<Rightarrow> Inl (LibraryError ''KeyError'' key)
      | Some v \<Rightarrow> Inr v)"

text \<open>The \<^verbatim>\<open>color_scheme\<close> argument: the name of a scheme, or a list of colours.\<close>

datatype scheme_arg = SchemeName string | SchemeList "color list"

text \<open>
  \<^verbatim>\<open>
  def _get_gradient_colors(color_scheme, num_categories):
      if isinstance(color_scheme, list):
          colors = color_scheme
      elif color_scheme in COLOR_SCHEMES:
          colors = COLOR_SCHEMES[color_scheme]
      else:
          colors = COLOR_SCHEMES['corporate']
      if len(colors) < num_categories:
          base_cmap = LinearSegmentedColormap.from_list("custom", [colors[0], colors[-1]])
          return [base_cmap(i/float(num_categories-1)) for i in range(num_categories)]
      return colors[:num_categories]
  \<close>
  The number of categories is a length (\<^verbatim>\<open>len(data)\<close> at the one call), a natural number.
  \<^verbatim>\<open>colors[0]\<close> raises IndexError on an empty list, and the division raises
  ZeroDivisionError when \<^verbatim>\<open>num_categories\<close> is 1.
\<close>

definition selected_colors :: "scheme_arg \<Rightarrow> py_error + color list" where
  "selected_colors color_scheme =
     (case color_scheme of
        SchemeList colors \<Rightarrow> Inr colors
      | SchemeName name \<Rightarrow>
          if name \<in> set (map fst COLOR_SCHEMES) then dict_item COLOR_SCHEMES name
          else dict_item COLOR_SCHEMES ''corporate'')"

definition get_gradient_colors :: "scheme_arg \<Rightarrow> nat \<Rightarrow> py_error + color list" where
  "get_gradient_colors color_scheme num_categories =
     (case selected_colors color_scheme of
        Inl e \<Rightarrow> Inl e
      | Inr colors \<Rightarrow>
          if length colors < num_categories then
            (case colors of
               [] \<Rightarrow> Inl IndexError
             | c # cs \<Rightarrow>
                 if num_categories - 1 = 0 then Inl ZeroDivisionError
                 else Inr (map (\<lambda>i. Gradient c (last colors) i (num_categories - 1))
                             [0..<num_categories]))
          else Inr (take num_categories colors))"

text \<open>\<^verbatim>\<open>BG_STYLES.get(bg_style, BG_STYLES['default'])\<close>, the default evaluated first.\<close>

definition bg_style_settings :: "string \<Rightarrow> py_error + style_settings" where
  "bg_style_settings bg_style =
     (case dict_item BG_STYLES ''default'' of
        Inl e \<Rightarrow> Inl e
      | Inr dflt \<Rightarrow>
          (case map_of BG_STYLES bg_style of None \<Rightarrow> Inr dflt | Some s \<Rightarrow> Inr s))"

section \<open>Data frames and \<^verbatim>\<open>plot_bar_chart\<close>\<close>

text \<open>
  A pandas DataFrame as the scripts use it: the name of the index, the column names, and
  the rows, each row its index label with its cells in the order of the columns.
  A cell is a number (an empty cell is NaN) or a text.
\<close>

datatype cell = Num pyfloat | Str string

record dataframe =
  df_index_name :: "string option"
  df_columns :: "string list"
  df_rows :: "(cell \<times> cell list) list"

definition column_position :: "string \<Rightarrow> string list \<Rightarrow> nat" where
  "column_position col cols = length (takeWhile (\<lambda>c. c \<noteq> col) cols)"

definition cell_at :: "cell list \<Rightarrow> nat \<Rightarrow> cell" where
  "cell_at row k = (if k < length row then row ! k else Num NaN)"

text \<open>\<^verbatim>\<open>df[col]\<close>: the cells of a column, row by row.\<close>

definition column_values :: "dataframe \<Rightarrow> string \<Rightarrow> cell list" where
  "column_values df col =
     map (\<lambda>(label, cells). cell_at cells (column_position col (df_columns df))) (df_rows df)"

text \<open>\<^verbatim>\<open>str.lower\<close> on the ASCII letters; every other character is kept.\<close>

definition lower_char :: "char \<Rightarrow> char" where
  "lower_char c =
     (let n = (of_char c :: nat)
      in if 65 \<le> n \<and> n \<le> 90 then char_of (n + 32) else c)"

definition py_lower :: "string \<Rightarrow> string" where
  "py_lower s = map lower_char s"

text \<open>
  The keyword arguments of \<^verbatim>\<open>plot_bar_chart\<close> that decide what is drawn where. The
  arguments that only set sizes, fonts, bar geometry, the x label, the column titles
  and the legend are passed on to matplotlib unchanged and are left out.
\<close>

datatype ylabels_arg = YNone | YDict "(string \<times> string) list" | YStr string

record format_spec =
  fs_is_percentage :: "bool option"
  fs_precision :: "nat option"

datatype layout_arg = LayoutNone | LayoutAuto | LayoutGrid nat nat

record plot_options =
  o_title :: "string option"
  o_subtitle :: "string option"
  o_ylabels :: ylabels_arg
  o_color_scheme :: scheme_arg
  o_bg_style :: string
  o_show_values :: bool
  o_value_format :: "(string \<times> format_spec) list option"
  o_layout :: layout_arg
  o_save_path :: "string option"
  o_grid :: bool

text \<open>What one subplot shows, and what the figure holds when the function returns.\<close>

record panel =
  p_axis :: nat
  p_column :: string
  p_is_percentage :: bool
  p_precision :: "nat option"
  p_palette :: "color list"
  p_ylabel :: string
  p_percent_axis :: bool
  p_value_labels :: "rendering list"
  p_grid_alpha :: "rat option"

record figure =
  fig_layout :: "nat \<times> nat"
  fig_style :: string
  fig_panels :: "panel list"
  fig_removed_axes :: "nat list"
  fig_title :: "string option"
  fig_subtitle :: "string option"
  fig_saved_to :: "string option"

text \<open>
  \<^verbatim>\<open>
  if layout is None or layout == 'auto':
      if len(valid_columns) <= 2:
          layout = (1, len(valid_columns))
      elif len(valid_columns) <= 4:
          layout = (2, 2)
      else:
          cols = min(3, len(valid_columns))
          rows = (len(valid_columns) + cols - 1) // cols
          layout = (rows, cols)
  \<close>
\<close>

definition auto_layout :: "nat \<Rightarrow> nat \<times> nat" where
  "auto_layout n =
     (if n \<le> 2 then (1, n)
      else if n \<le> 4 then (2, 2)
      else (let cols = min 3 n; rows = (n + cols - 1) div cols in (rows, cols)))"

definition chosen_layout :: "layout_arg \<Rightarrow> nat \<Rightarrow> nat \<times> nat" where
  "chosen_layout layout n =
     (case layout of
        LayoutNone \<Rightarrow> auto_layout n
      | LayoutAuto \<Rightarrow> auto_layout n
      | LayoutGrid rows cols \<Rightarrow> (rows, cols))"

text \<open>
  \<^verbatim>\<open>
  if value_format and col in value_format:
      is_percentage = value_format[col].get('is_percentage', False)
      precision = value_format[col].get('precision', None)
  else:
      is_percentage = '%' in col.lower()
  \<close>
\<close>

definition column_format :: "(string \<times> format_spec) list option \<Rightarrow> string \<Rightarrow> bool \<times> nat option" where
  "column_format value_format col =
     (case (case value_format of None \<Rightarrow> None | Some vf \<Rightarrow> map_of vf col) of
        Some spec \<Rightarrow>
          ((case fs_is_percentage spec of None \<Rightarrow> False | Some b \<Rightarrow> b), fs_precision spec)
      | None \<Rightarrow> (CHR ''%'' \<in> set (py_lower col), None))"

text \<open>
  \<^verbatim>\<open>all(abs(v - round(v)) < 0.01 for v in data[col].dropna())\<close>: it stops at the first
  value that is not close to an integer; before that, an infinity raises at
  \<^verbatim>\<open>round\<close> and a text raises TypeError at the subtraction.
\<close>

fun all_integers :: "cell list \<Rightarrow> py_error + bool" where
  "all_integers [] = Inr True"
| "all_integers (Num NaN # vs) = all_integers vs"
| "all_integers (Num (Fin x) # vs) =
     (if \<bar>x - of_int (py_round x)\<bar> < 1 / 100 then all_integers vs else Inr False)"
| "all_integers (Num v # vs) = Inl OverflowError"
| "all_integers (Str s # vs) = Inl TypeError"

definition y_axis_label :: "ylabels_arg \<Rightarrow> bool \<Rightarrow> string \<Rightarrow> cell list \<Rightarrow> py_error + string" where
  "y_axis_label ylabels is_percentage col vals =
     (case ylabels of
        YDict (entry # entries) \<Rightarrow>
          (case map_of (entry # entries) col of Some l \<Rightarrow> Inr l | None \<Rightarrow> Inr ''Value'')
      | YStr (c # cs) \<Rightarrow> Inr (c # cs)
      | _ \<Rightarrow>
          if is_percentage then Inr ''Percentage''
          else (case all_integers vals of
                  Inl e \<Rightarrow> Inl e
                | Inr True \<Rightarrow> Inr ''Count''
                | Inr False \<Rightarrow> Inr ''Value''))"

text \<open>The labels of the bars, one \<^verbatim>\<open>_format_value\<close> call for each patch, in order.\<close>

fun format_values :: "pyfloat list \<Rightarrow> bool \<Rightarrow> nat option \<Rightarrow> py_error + rendering list" where
  "format_values [] is_percentage precision = Inr []"
| "format_values (v # vs) is_percentage precision =
     (case format_value v is_percentage precision of
        Inl e \<Rightarrow> Inl e
      | Inr label \<Rightarrow>
          (case format_values vs is_percentage precision of
             Inl e \<Rightarrow> Inl e
           | Inr labels \<Rightarrow> Inr (label # labels)))"

text \<open>
  The body of the loop \<^verbatim>\<open>for i, col in enumerate(valid_columns)\<close> for one column, on
  the axes \<^verbatim>\<open>axes[i]\<close>. The heights of the bars that seaborn draws for a column
  (\<^verbatim>\<open>p.get_height() for p in ax.patches\<close>) are computed by the library and are a parameter,
  \<open>bar_heights\<close>. The palette is read at \<^verbatim>\<open>colors[0]\<close> in the call of
  \<^verbatim>\<open>sns.barplot\<close>, which raises IndexError when the frame has no rows.
\<close>

definition plot_column ::
  "(dataframe \<Rightarrow> string \<Rightarrow> pyfloat list) \<Rightarrow> dataframe \<Rightarrow> plot_options \<Rightarrow> style_settings
    \<Rightarrow> nat \<Rightarrow> string \<Rightarrow> py_error + panel" where
  "plot_column bar_heights data opts settings i col =
     (let (is_percentage, precision) = column_format (o_value_format opts) col
      in case get_gradient_colors (o_color_scheme opts) (length (df_rows data)) of
           Inl e \<Rightarrow> Inl e
         | Inr colors \<Rightarrow>
             if colors = [] then Inl IndexError
             else
               (case y_axis_label (o_ylabels opts) is_percentage col (column_values data col) of
                  Inl e \<Rightarrow> Inl e
                | Inr y_label \<Rightarrow>
                    (case (if o_show_values opts
                           then format_values (bar_heights data col) is_percentage precision
                           else Inr []) of
                       Inl e \<Rightarrow> Inl e
                     | Inr labels \<Rightarrow>
                         Inr \<lparr>p_axis = i, p_column = col,
                              p_is_percentage = is_percentage, p_precision = precision,
                              p_palette = colors, p_ylabel = y_label,
                              p_percent_axis = is_percentage, p_value_labels = labels,
                              p_grid_alpha =
                                (if o_grid opts then Some (grid_alpha settings) else None)\<rparr>)))"

text \<open>
  The loop itself, with its safety check:
  \<^verbatim>\<open>
  for i, col in enumerate(valid_columns):
      if i >= len(axes):
          break
      ax = axes[i]
      ...
  \<close>
\<close>

fun plot_columns ::
  "(dataframe \<Rightarrow> string \<Rightarrow> pyfloat list) \<Rightarrow> dataframe \<Rightarrow> plot_options \<Rightarrow> style_settings
    \<Rightarrow> nat \<Rightarrow> nat \<Rightarrow> string list \<Rightarrow> py_error + panel list" where
  "plot_columns bar_heights data opts settings n_axes i [] = Inr []"
| "plot_columns bar_heights data opts settings n_axes i (col # cols) =
     (if n_axes \<le> i then Inr []
      else
        (case plot_column bar_heights data opts settings i col of
           Inl e \<Rightarrow> Inl e
         | Inr p \<Rightarrow>
             (case plot_columns bar_heights data opts settings n_axes (i + 1) cols of
                Inl e \<Rightarrow> Inl e
              | Inr ps \<Rightarrow> Inr (p # ps))))"

text \<open>\<^verbatim>\<open>if s:\<close> on an optional string: neither None nor empty.\<close>

definition truthy :: "string option \<Rightarrow> string option" where
  "truthy s = (case s of None \<Rightarrow> None | Some t \<Rightarrow> if t = [] then None else Some t)"

text \<open>
  \<^verbatim>\<open>plot_bar_chart\<close>. A single column name given as a string is the list of that one
  name. The axes of the \<open>rows \<times> cols\<close> grid are numbered as the flattened array is,
  from 0; the axes from \<^verbatim>\<open>len(valid_columns)\<close> on are deleted from the figure. The
  result stands for the pair \<^verbatim>\<open>(fig, axes)\<close> that is returned.
\<close>

text \<open>
  \<^verbatim>\<open>fig, axes = plt.subplots(layout[0], layout[1], ...)\<close> gives the number of axes of
  the flattened array. matplotlib refuses a grid without rows or without columns with
  a ValueError; an automatic layout never asks for one, an explicit layout can.
\<close>

definition subplots :: "nat \<Rightarrow> nat \<Rightarrow> py_error + nat" where
  "subplots rows cols =
     (if rows = 0 then
        Inl (LibraryError ''ValueError'' ''Number of rows must be a positive integer, not 0'')
      else if cols = 0 then
        Inl (LibraryError ''ValueError'' ''Number of columns must be a positive integer, not 0'')
      else Inr (rows * cols))"

definition valid_columns :: "dataframe \<Rightarrow> string list \<Rightarrow> string list" where
  "valid_columns data columns = filter (\<lambda>col. col \<in> set (df_columns data)) columns"

definition plot_bar_chart ::
  "(dataframe \<Rightarrow> string \<Rightarrow> pyfloat list) \<Rightarrow> dataframe \<Rightarrow> string list \<Rightarrow> plot_options
    \<Rightarrow> py_error + figure" where
  "plot_bar_chart bar_heights df columns opts =
     (let data = df;
          valid_columns = valid_columns data columns
      in if valid_columns = [] then
           Inl (ValueError
             ''None of the specified columns exist in the dataframe. Available columns: ''
             (df_columns data))
         else
           (let grid_shape = chosen_layout (o_layout opts) (length valid_columns)
            in case bg_style_settings (o_bg_style opts) of
                 Inl e \<Rightarrow> Inl e
               | Inr settings \<Rightarrow>
                   (case subplots (fst grid_shape) (snd grid_shape) of
                      Inl e \<Rightarrow> Inl e
                    | Inr n_axes \<Rightarrow>
                        (case plot_columns bar_heights data opts settings n_axes 0
                                valid_columns of
                           Inl e \<Rightarrow> Inl e
                         | Inr panels \<Rightarrow>
                             Inr \<lparr>fig_layout = grid_shape,
                                  fig_style = style settings,
                                  fig_panels = panels,
                                  fig_removed_axes = [length valid_columns..<n_axes],
                                  fig_title = truthy (o_title opts),
                                  fig_subtitle =
                                    (case truthy (o_title opts) of
                                       None \<Rightarrow> None
                                     | Some t \<Rightarrow> truthy (o_subtitle opts)),
                                  fig_saved_to = truthy (o_save_path opts)\<rparr>))))"

text \<open>The default values of the keyword arguments in the signature of \<^verbatim>\<open>plot_bar_chart\<close>.\<close>

definition default_options :: plot_options where
  "default_options =
     \<lparr>o_title = None, o_subtitle = None, o_ylabels = YNone,
      o_color_scheme = SchemeName ''corporate'', o_bg_style = ''default'',
      o_show_values = True, o_value_format = None, o_layout = LayoutNone,
      o_save_path = None, o_grid = True\<rparr>"



text \<open>The columns of the subplots of a returned figure, in the order of the axes.\<close>

definition plotted_columns :: "py_error + figure \<Rightarrow> py_error + string list" where
  "plotted_columns result =
     (case result of Inl e \<Rightarrow> Inl e | Inr fig \<Rightarrow> Inr (map p_column (fig_panels fig)))"

text \<open>Whether a run raised a ValueError, of the code's own or of a library.\<close>

definition is_ValueError :: "py_error + 'a \<Rightarrow> bool" where
  "is_ValueError result =
     (case result of
        Inl (ValueError msg xs) \<Rightarrow> True
      | Inl (LibraryError cls msg) \<Rightarrow> cls = ''ValueError''
      | _ \<Rightarrow> False)"

text \<open>
  A frame to run the functions on, and the bar heights of a frame whose index labels
  are all different: one bar for each row, as high as the cell of the row.
\<close>

definition cell_heights :: "dataframe \<Rightarrow> string \<Rightarrow> pyfloat list" where
  "cell_heights data col =
     map (\<lambda>c. case c of Num v \<Rightarrow> v | Str s \<Rightarrow> NaN) (column_values data col)"

definition sample_frame :: dataframe where
  "sample_frame =
     \<lparr>df_index_name = Some ''Category'',
      df_columns = [''Sales'', ''Growth %'', ''Units''],
      df_rows = [(Str ''North'', [Num (Fin 120), Num (Fin (5 / 100)), Num (Fin 3)]),
                 (Str ''South'', [Num (Fin (455 / 10)), Num (Fin (12 / 100)), Num (Fin 7)])]\<rparr>"

section \<open>\<^verbatim>\<open>create_dashboard\<close>\<close>

text \<open>\<^verbatim>\<open>str(n)\<close> for a natural number, in decimal.\<close>

definition digit_char :: "nat \<Rightarrow> char" where
  "digit_char d = char_of (48 + d)"

function str_nat :: "nat \<Rightarrow> string" where
  "str_nat n = (if n < 10 then [digit_char n] else str_nat (n div 10) @ [digit_char (n mod 10)])"
  by pat_completeness auto
termination
  by (relation "measure (\<lambda>n. n)") auto

declare str_nat.simps [simp del]

text \<open>
  \<^verbatim>\<open>base, ext = output_path.rsplit('.', 1)\<close>: the text before and after the last dot.
  Without a dot the list has one element and the assignment raises ValueError.
\<close>

definition rsplit_dot :: "string \<Rightarrow> py_error + string \<times> string" where
  "rsplit_dot s =
     (if CHR ''.'' \<in> set s then
        Inr (rev (tl (dropWhile (\<lambda>c. c \<noteq> CHR ''.'') (rev s))),
             rev (takeWhile (\<lambda>c. c \<noteq> CHR ''.'') (rev s)))
      else Inl (ValueError ''not enough values to unpack (expected 2, got 1)'' []))"

definition IMAGE_EXTENSIONS :: "string list" where
  "IMAGE_EXTENSIONS = [''.png'', ''.jpg'', ''.jpeg'', ''.pdf'', ''.svg'']"

text \<open>
  \<^verbatim>\<open>
  save_path = None
  if output_path:
      if output_path.lower().endswith(('.png', '.jpg', '.jpeg', '.pdf', '.svg')):
          base, ext = output_path.rsplit('.', 1)
          save_path = f"{base}_group{i+1}.{ext}"
      else:
          save_path = f"{output_path}_group{i+1}.png"
  \<close>
\<close>

definition has_image_extension :: "string \<Rightarrow> bool" where
  "has_image_extension path = list_ex (\<lambda>e. suffix e (py_lower path)) IMAGE_EXTENSIONS"

definition group_save_path :: "string option \<Rightarrow> nat \<Rightarrow> py_error + string option" where
  "group_save_path output_path i =
     (case truthy output_path of
        None \<Rightarrow> Inr None
      | Some path \<Rightarrow>
          if has_image_extension path then
            (case rsplit_dot path of
               Inl e \<Rightarrow> Inl e
             | Inr (base, ext) \<Rightarrow>
                 Inr (Some (base @ ''_group'' @ str_nat (i + 1) @ ''.'' @ ext)))
          else Inr (Some (path @ ''_group'' @ str_nat (i + 1) @ ''.png'')))"

text \<open>
  The arguments of \<^verbatim>\<open>create_dashboard\<close> that reach what \<^verbatim>\<open>plot_bar_chart\<close> draws.
  A dictionary keyed by the group index is an association list; \<open>None\<close> is the
  argument left out.
\<close>

record dashboard_options =
  d_column_groups :: "string list list option"
  d_output_path :: "string option"
  d_title_prefix :: string
  d_color_schemes :: "scheme_arg list option"
  d_bg_style :: string
  d_layout_options :: "layout_arg list option"
  d_custom_titles :: "(nat \<times> string) list option"
  d_custom_subtitles :: "(nat \<times> string) list option"
  d_value_formats :: "(nat \<times> (string \<times> format_spec) list) list option"
  d_global_ylabel :: ylabels_arg

definition default_dashboard_options :: dashboard_options where
  "default_dashboard_options =
     \<lparr>d_column_groups = None, d_output_path = None, d_title_prefix = ''HDFC'',
      d_color_schemes = None, d_bg_style = ''presentation'', d_layout_options = None,
      d_custom_titles = None, d_custom_subtitles = None, d_value_formats = None,
      d_global_ylabel = YNone\<rparr>"

definition default_color_schemes :: "scheme_arg list" where
  "default_color_schemes =
     map SchemeName [''corporate'', ''hdfc_brand'', ''vibrant'', ''pastel'',
                     ''gradient_blue'', ''gradient_red'']"

text \<open>\<^verbatim>\<open>d[i] if d and i in d else None\<close> for a dictionary keyed by the group index.\<close>

definition group_entry :: "(nat \<times> 'a) list option \<Rightarrow> nat \<Rightarrow> 'a option" where
  "group_entry d i = (case d of None \<Rightarrow> None | Some entries \<Rightarrow> map_of entries i)"

text \<open>
  The keyword arguments of the call of \<^verbatim>\<open>plot_bar_chart\<close> for the group at index \<open>i\<close>,
  given its colour scheme and its save path; \<^verbatim>\<open>show_values\<close> and \<^verbatim>\<open>grid\<close> keep their
  defaults.
\<close>

definition group_plot_options ::
  "string \<Rightarrow> dashboard_options \<Rightarrow> scheme_arg \<Rightarrow> string option \<Rightarrow> nat \<Rightarrow> plot_options" where
  "group_plot_options sheet_name dopts scheme path i =
     \<lparr>o_title =
        Some (case group_entry (d_custom_titles dopts) i of
                Some t \<Rightarrow> t
              | None \<Rightarrow> d_title_prefix dopts @ '' '' @ sheet_name @ '' Analysis - Group ''
                          @ str_nat (i + 1)),
      o_subtitle = group_entry (d_custom_subtitles dopts) i,
      o_ylabels = d_global_ylabel dopts,
      o_color_scheme = scheme,
      o_bg_style = d_bg_style dopts,
      o_show_values = True,
      o_value_format = group_entry (d_value_formats dopts) i,
      o_layout =
        (case d_layout_options dopts of
           None \<Rightarrow> LayoutNone
         | Some ls \<Rightarrow> if i < length ls then ls ! i else LayoutNone),
      o_save_path = path,
      o_grid = True\<rparr>"

text \<open>
  One round of the loop \<^verbatim>\<open>for i, columns in enumerate(column_groups)\<close>:
  \<^verbatim>\<open>color_schemes[i % len(color_schemes)]\<close> raises ZeroDivisionError on an empty list.
\<close>

definition plot_group ::
  "(dataframe \<Rightarrow> string \<Rightarrow> pyfloat list) \<Rightarrow> dataframe \<Rightarrow> string \<Rightarrow> dashboard_options
    \<Rightarrow> scheme_arg list \<Rightarrow> nat \<Rightarrow> string list \<Rightarrow> py_error + figure" where
  "plot_group bar_heights df sheet_name dopts color_schemes i columns =
     (if length color_schemes = 0 then Inl ZeroDivisionError
      else
        (let scheme = color_schemes ! (i mod length color_schemes)
         in case group_save_path (d_output_path dopts) i of
              Inl e \<Rightarrow> Inl e
            | Inr path \<Rightarrow>
                plot_bar_chart bar_heights df columns
                  (group_plot_options sheet_name dopts scheme path i)))"

fun plot_groups ::
  "(dataframe \<Rightarrow> string \<Rightarrow> pyfloat list) \<Rightarrow> dataframe \<Rightarrow> string \<Rightarrow> dashboard_options
    \<Rightarrow> scheme_arg list \<Rightarrow> nat \<Rightarrow> string list list \<Rightarrow> py_error + figure list" where
  "plot_groups bar_heights df sheet_name dopts color_schemes i [] = Inr []"
| "plot_groups bar_heights df sheet_name dopts color_schemes i (columns # groups) =
     (case plot_group bar_heights df sheet_name dopts color_schemes i columns of
        Inl e \<Rightarrow> Inl e
      | Inr fig \<Rightarrow>
          (case plot_groups bar_heights df sheet_name dopts color_schemes (i + 1) groups of
             Inl e \<Rightarrow> Inl e
           | Inr results \<Rightarrow> Inr (fig # results)))"

definition dashboard_color_schemes :: "dashboard_options \<Rightarrow> scheme_arg list" where
  "dashboard_color_schemes dopts =
     (case d_color_schemes dopts of None \<Rightarrow> default_color_schemes | Some cs \<Rightarrow> cs)"

definition dashboard_column_groups :: "dataframe \<Rightarrow> dashboard_options \<Rightarrow> string list list" where
  "dashboard_column_groups df dopts =
     (case d_column_groups dopts of
        None \<Rightarrow> auto_column_groups (df_columns df)
      | Some groups \<Rightarrow> groups)"

definition create_dashboard ::
  "(dataframe \<Rightarrow> string \<Rightarrow> pyfloat list) \<Rightarrow> dataframe \<Rightarrow> string \<Rightarrow> dashboard_options
    \<Rightarrow> py_error + figure list" where
  "create_dashboard bar_heights df sheet_name dopts =
     plot_groups bar_heights df sheet_name dopts (dashboard_color_schemes dopts) 0
       (dashboard_column_groups df dopts)"


section \<open>The script \<^verbatim>\<open>generate_dashboard.py\<close>\<close>

text \<open>
  The command-line arguments that \<^verbatim>\<open>main\<close> uses after parsing, and what it prints: each
  \<^verbatim>\<open>print\<close> is one line of the console, kept with the values it is formatted from.
\<close>

record main_args =
  a_sheet :: "string option"
  a_output :: string
  a_title :: "string option"
  a_style :: string
  a_colors :: string

datatype console_line =
    Processing_sheet string
  | Generated_chart_groups nat string
  | Error_processing_sheet string py_error
  | All_dashboards_exported string

text \<open>\<^verbatim>\<open>os.path.join(a, b)\<close> for two components, on POSIX.\<close>

definition path_join :: "string \<Rightarrow> string \<Rightarrow> string" where
  "path_join a b =
     (if b \<noteq> [] \<and> hd b = CHR ''/'' then b
      else if a = [] \<or> last a = CHR ''/'' then a @ b
      else a @ ''/'' @ b)"

text \<open>
  The body of the \<^verbatim>\<open>try\<close> block for one sheet, up to the number of chart groups that
  the last \<^verbatim>\<open>print\<close> of the block reports. Reading the sheet is pandas' work and is a
  parameter: \<open>read_excel sheet\<close> is the result of
  \<^verbatim>\<open>pd.read_excel(args.file, index_col="Category", sheet_name=sheet)\<close>, a frame or an
  exception.
\<close>

definition process_sheet ::
  "(dataframe \<Rightarrow> string \<Rightarrow> pyfloat list) \<Rightarrow> (string \<Rightarrow> py_error + dataframe) \<Rightarrow> main_args
    \<Rightarrow> string \<Rightarrow> py_error + nat" where
  "process_sheet bar_heights read_excel args sheet =
     (case read_excel sheet of
        Inl e \<Rightarrow> Inl e
      | Inr df \<Rightarrow>
          (let column_groups = main_column_groups (df_columns df);
               title_prefix = (case truthy (a_title args) of Some t \<Rightarrow> t | None \<Rightarrow> ''HDFC'');
               output_path = path_join (a_output args) (''HDFC_'' @ sheet)
           in case create_dashboard bar_heights df sheet
                     (default_dashboard_options
                        \<lparr>d_column_groups := Some column_groups,
                         d_output_path := Some output_path,
                         d_title_prefix := title_prefix,
                         d_color_schemes := Some [SchemeName (a_colors args)],
                         d_bg_style := a_style args\<rparr>) of
                Inl e \<Rightarrow> Inl e
              | Inr dashboard \<Rightarrow> Inr (length dashboard)))"

text \<open>
  The loop over the sheets:
  \<^verbatim>\<open>
  for sheet in sheets:
      print(f"Processing sheet: {sheet}")
      try:
          ...
          print(f"  - Generated {len(dashboard)} chart groups for {sheet}")
      except Exception as e:
          print(f"Error processing sheet {sheet}: {e}")
  \<close>
  Every exception of the model is an instance of \<^verbatim>\<open>Exception\<close>, so the handler takes
  each of them.
\<close>

fun main_loop ::
  "(dataframe \<Rightarrow> string \<Rightarrow> pyfloat list) \<Rightarrow> (string \<Rightarrow> py_error + dataframe) \<Rightarrow> main_args
    \<Rightarrow> string list \<Rightarrow> console_line list \<Rightarrow> console_line list" where
  "main_loop bar_heights read_excel args [] console = console"
| "main_loop bar_heights read_excel args (sheet # sheets) console =
     main_loop bar_heights read_excel args sheets
       (console @ [Processing_sheet sheet] @
          (case process_sheet bar_heights read_excel args sheet of
             Inr n \<Rightarrow> [Generated_chart_groups n sheet]
           | Inl e \<Rightarrow> [Error_processing_sheet sheet e]))"

text \<open>
  \<^verbatim>\<open>main\<close>, after the arguments are parsed. \<open>sheet_names\<close> is the result of
  \<^verbatim>\<open>pd.ExcelFile(args.file)\<close> with its \<^verbatim>\<open>sheet_names\<close>; it is evaluated before the loop
  and outside any \<^verbatim>\<open>try\<close>, so an exception there ends the script.
\<close>

definition sheets_to_process :: "main_args \<Rightarrow> string list \<Rightarrow> string list" where
  "sheets_to_process args names = (case truthy (a_sheet args) of Some s \<Rightarrow> [s] | None \<Rightarrow> names)"

definition main ::
  "(dataframe \<Rightarrow> string \<Rightarrow> pyfloat list) \<Rightarrow> py_error + string list
    \<Rightarrow> (string \<Rightarrow> py_error + dataframe) \<Rightarrow> main_args \<Rightarrow> py_error + console_line list" where
  "main bar_heights sheet_names read_excel args =
     (case sheet_names of
        Inl e \<Rightarrow> Inl e
      | Inr names \<Rightarrow>
          (let sheets = sheets_to_process args names
           in Inr (main_loop bar_heights read_excel args sheets []
                    @ [All_dashboards_exported (a_output args)])))"

text \<open>
  A workbook to run the script on: the sheet \<^verbatim>\<open>Broken\<close> has no \<^verbatim>\<open>Category\<close> column, so
  reading it raises; the sheet \<^verbatim>\<open>Empty\<close> has the columns of the sample but no rows.
\<close>

definition sample_read_excel :: "string \<Rightarrow> py_error + dataframe" where
  "sample_read_excel sheet =
     (if sheet = ''Broken'' then Inl (LibraryError ''ValueError'' ''Index Category invalid'')
      else if sheet = ''Empty'' then Inr (sample_frame\<lparr>df_rows := []\<rparr>)
      else Inr sample_frame)"

definition sample_args :: main_args where
  "sample_args =
     \<lparr>a_sheet = None, a_output = ''./exports'', a_title = None,
      a_style = ''presentation'', a_colors = ''hdfc_brand''\<rparr>"

text \<open>
  For the properties of the loop: the two lines one sheet leaves on the console, and the
  sheets whose processing a console reports as started.
\<close>

definition sheet_lines ::
  "(dataframe \<Rightarrow> string \<Rightarrow> pyfloat list) \<Rightarrow> (string \<Rightarrow> py_error + dataframe) \<Rightarrow> main_args
    \<Rightarrow> string \<Rightarrow> console_line list" where
  "sheet_lines bar_heights read_excel args sheet =
     [Processing_sheet sheet,
      (case process_sheet bar_heights read_excel args sheet of
         Inr n \<Rightarrow> Generated_chart_groups n sheet
       | Inl e \<Rightarrow> Error_processing_sheet sheet e)]"

fun started_sheets :: "console_line list \<Rightarrow> string list" where
  "started_sheets [] = []"
| "started_sheets (Processing_sheet sheet # ls) = sheet # started_sheets ls"
| "started_sheets (l # ls) = started_sheets ls"

section \<open>The script \<^verbatim>\<open>remove_subtotal.py\<close>\<close>















section \<open>Properties\<close>

subsection \<open>The grouping loop\<close>

lemma concat_group_loop:
  "concat (group_loop cols i acc) = concat acc @ drop i cols"
proof (induction cols i acc rule: group_loop.induct)
  case (1 cols i acc)
  show ?case
  proof (cases "i < length cols")
    case True
    have split: "take 4 (drop i cols) @ drop (i + 4) cols = drop i cols"
      by (metis add.commute append_take_drop_id drop_drop)
    from True have ne: "take 4 (drop i cols) \<noteq> []"
      by simp
    from True ne 1 [OF True refl] split show ?thesis
      by (subst group_loop.simps) (simp add: Let_def)
  next
    case False
    then show ?thesis
      by (subst group_loop.simps) simp
  qed
qed

lemma quarter_step: "0 < (d::nat) \<Longrightarrow> Suc ((d - 4 + 3) div 4) = (d + 3) div 4"
proof (cases "4 \<le> d")
  case True
  then obtain e where "d = e + 4"
    by (metis le_add_diff_inverse2)
  then show ?thesis
    by simp
next
  case False
  assume "0 < d"
  with False have "d = 1 \<or> d = 2 \<or> d = 3"
    by arith
  then show ?thesis
    by auto
qed

lemma length_group_loop:
  "length (group_loop cols i acc) = length acc + (length cols - i + 3) div 4"
proof (induction cols i acc rule: group_loop.induct)
  case (1 cols i acc)
  show ?case
  proof (cases "i < length cols")
    case True
    from True have ne: "take 4 (drop i cols) \<noteq> []"
      by simp
    from True have "Suc ((length cols - (i + 4) + 3) div 4) = (length cols - i + 3) div 4"
      using quarter_step [of "length cols - i"] by simp
    with True ne 1 [OF True refl] show ?thesis
      by (subst group_loop.simps) (simp add: Let_def)
  next
    case False
    then show ?thesis
      by (subst group_loop.simps) simp
  qed
qed

lemma group_loop_sizes:
  "\<forall>g \<in> set acc. length g \<le> 4 \<and> g \<noteq> [] \<Longrightarrow>
   \<forall>g \<in> set (group_loop cols i acc). length g \<le> 4 \<and> g \<noteq> []"
proof (induction cols i acc rule: group_loop.induct)
  case (1 cols i acc)
  show ?case
  proof (cases "i < length cols")
    case True
    from True have ne: "take 4 (drop i cols) \<noteq> []"
      by simp
    have "\<forall>g \<in> set (acc @ [take 4 (drop i cols)]). length g \<le> 4 \<and> g \<noteq> []"
      using "1.prems" ne by auto
    with True ne 1(1) [OF True refl] show ?thesis
      by (subst group_loop.simps) (simp add: Let_def)
  next
    case False
    with "1.prems" show ?thesis
      by (subst group_loop.simps) simp
  qed
qed

lemma ceiling_quarter: "nat \<lceil>real n / 4\<rceil> = (n + 3) div 4"
proof -
  have "\<lceil>real n / 4\<rceil> = \<lceil>real_of_int (int n) / real_of_int 4\<rceil>"
    by simp
  also have "\<dots> = - ((- int n) div 4)"
    by (simp only: ceiling_divide_eq_div)
  also have "\<dots> = int ((n + 3) div 4)"
    by presburger
  finally show ?thesis
    by simp
qed

lemma main_column_groups_grouping:
  "length (main_column_groups cols) = nat \<lceil>real (length cols) / 4\<rceil>
   \<and> (\<forall>g \<in> set (main_column_groups cols). length g \<le> 4)
   \<and> concat (main_column_groups cols) = cols"
  using group_loop_sizes [of "[]" cols 0]
  by (simp add: main_column_groups_def length_group_loop concat_group_loop ceiling_quarter)

lemma auto_column_groups_grouping:
  "cols \<noteq> [] \<Longrightarrow>
   length (auto_column_groups cols) = nat \<lceil>real (length cols) / 4\<rceil>
   \<and> (\<forall>g \<in> set (auto_column_groups cols). length g \<le> 4)
   \<and> concat (auto_column_groups cols) = cols"
proof (cases "length cols \<le> 4")
  case True
  assume "cols \<noteq> []"
  with True have "(length cols + 3) div 4 = 1"
    by (cases cols) auto
  with True show ?thesis
    by (simp add: auto_column_groups_def ceiling_quarter)
next
  case False
  then show ?thesis
    using group_loop_sizes [of "[]" cols 0]
    by (simp add: auto_column_groups_def length_group_loop concat_group_loop ceiling_quarter)
qed

text \<open>
  Claim C1. For a table of N columns the grouping step is to give \<open>\<lceil>N / 4\<rceil>\<close> groups. On
  a table without columns the loop of \<^verbatim>\<open>main\<close> gives no group, as the claim says, while
  \<^verbatim>\<open>create_dashboard\<close> takes the branch for at most four columns and gives one group,
  the empty one, which the loop is written never to add; \<^verbatim>\<open>plot_bar_chart\<close> then raises
  ValueError for that group.
\<close>

theorem auto_column_groups_no_columns:
  "auto_column_groups ([] :: string list) = [[]]
   \<and> length (auto_column_groups ([] :: string list)) = 1
   \<and> nat \<lceil>real (length ([] :: string list)) / 4\<rceil> = 0
   \<and> main_column_groups ([] :: string list) = []
   \<and> dashboard_column_groups (sample_frame\<lparr>df_columns := []\<rparr>) default_dashboard_options
       = [[]]
   \<and> is_ValueError
        (create_dashboard cell_heights (sample_frame\<lparr>df_columns := []\<rparr>) ''Q1''
           default_dashboard_options)"
proof -
  have "auto_column_groups ([] :: string list) = [[]]"
    and "main_column_groups ([] :: string list) = []"
    by (simp_all add: auto_column_groups_def main_column_groups_def group_loop.simps)
  moreover have "dashboard_column_groups (sample_frame\<lparr>df_columns := []\<rparr>)
      default_dashboard_options = [[]]"
    by (simp add: dashboard_column_groups_def default_dashboard_options_def
        auto_column_groups_def)
  moreover have "is_ValueError
      (create_dashboard cell_heights (sample_frame\<lparr>df_columns := []\<rparr>) ''Q1''
         default_dashboard_options)"
    by code_simp
  ultimately show ?thesis
    by simp
qed

subsection \<open>Number formatting\<close>




lemma format_value_negative_infinity_raises:
  "format_value NInf False precision = Inl OverflowError"
  by simp



subsection \<open>Colour schemes and background styles\<close>

lemma corporate_item:
  "dict_item COLOR_SCHEMES ''corporate'' =
     Inr (map Color [''#003f5c'', ''#2f4b7c'', ''#665191'', ''#a05195'',
                     ''#d45087'', ''#f95d6a'', ''#ff7c43'', ''#ffa600''])"
  by (simp add: dict_item_def COLOR_SCHEMES_def)

lemma scheme_names:
  "set (map fst COLOR_SCHEMES) =
     {''corporate'', ''vibrant'', ''pastel'', ''hdfc_brand'', ''gradient_blue'', ''gradient_red''}"
  by (simp add: COLOR_SCHEMES_def)

lemma dict_item_present:
  "key \<in> set (map fst d) \<Longrightarrow> \<exists>v. dict_item d key = Inr v \<and> (key, v) \<in> set d"
proof -
  assume "key \<in> set (map fst d)"
  then obtain v where "map_of d key = Some v"
    by (metis map_of_eq_None_iff not_Some_eq set_map)
  then show ?thesis
    by (auto simp add: dict_item_def dest: map_of_SomeD)
qed

lemma scheme_sizes: "(name, colors) \<in> set COLOR_SCHEMES \<Longrightarrow> length colors = 8"
  by (auto simp add: COLOR_SCHEMES_def)

lemma selected_colors_named:
  "\<exists>colors. selected_colors (SchemeName name) = Inr colors \<and> length colors = 8"
proof (cases "name \<in> set (map fst COLOR_SCHEMES)")
  case True
  from dict_item_present [OF True] scheme_sizes True show ?thesis
    by (auto simp add: selected_colors_def)
next
  case False
  then show ?thesis
    by (simp add: selected_colors_def corporate_item)
qed

lemma get_gradient_colors_length:
  assumes "selected_colors color_scheme = Inr colors" and "colors \<noteq> []"
  shows "\<exists>result. get_gradient_colors color_scheme n = Inr result \<and> length result = n
    \<and> (length colors < n \<longrightarrow>
         result = map (\<lambda>i. Gradient (hd colors) (last colors) i (n - 1)) [0..<n])
    \<and> (n \<le> length colors \<longrightarrow> result = take n colors)"
proof (cases "length colors < n")
  case True
  from assms(2) obtain c cs where c: "colors = c # cs"
    by (cases colors) auto
  with True have "n - 1 \<noteq> 0"
    by auto
  with True c assms(1) show ?thesis
    by (simp add: get_gradient_colors_def)
next
  case False
  with assms(1) show ?thesis
    by (simp add: get_gradient_colors_def)
qed

lemma scheme_keys_distinct: "distinct (map fst COLOR_SCHEMES)"
  by (simp add: COLOR_SCHEMES_def)

lemma selected_colors_entry:
  assumes "(name, palette) \<in> set COLOR_SCHEMES"
  shows "selected_colors (SchemeName name) = Inr palette"
proof -
  from assms have "name \<in> set (map fst COLOR_SCHEMES)"
    by force
  moreover from scheme_keys_distinct assms have "map_of COLOR_SCHEMES name = Some palette"
    by (rule map_of_is_SomeI)
  ultimately show ?thesis
    by (simp add: selected_colors_def dict_item_def)
qed

lemma selected_colors_fallback:
  assumes "name \<notin> set (map fst COLOR_SCHEMES)" and "(''corporate'', palette) \<in> set COLOR_SCHEMES"
  shows "selected_colors (SchemeName name) = Inr palette"
proof -
  from scheme_keys_distinct assms(2) have "map_of COLOR_SCHEMES ''corporate'' = Some palette"
    by (rule map_of_is_SomeI)
  with assms(1) show ?thesis
    by (simp add: selected_colors_def dict_item_def)
qed

text \<open>
  Claim C2. The palette of a colour scheme is the list itself for a non-empty list of
  colours, the entry \<^verbatim>\<open>COLOR_SCHEMES[name]\<close> for a name present in \<^verbatim>\<open>COLOR_SCHEMES\<close>, and
  the entry \<^verbatim>\<open>COLOR_SCHEMES['corporate']\<close> for any other name. For each of them and for
  at least one category, \<^verbatim>\<open>_get_gradient_colors\<close> returns exactly \<open>num_categories\<close>
  colours: the first \<open>num_categories\<close> colours of the palette when it has that many, and
  otherwise the samples at \<open>i / (n - 1)\<close>, for \<open>i\<close> from 0 to \<open>n - 1\<close>, of the gradient
  from the first to the last colour of the palette.
\<close>

theorem get_gradient_colors_supplies_every_series:
  assumes "1 \<le> num_categories"
    and "(color_scheme = SchemeList palette \<and> palette \<noteq> [])
       \<or> (\<exists>name. color_scheme = SchemeName name \<and> (name, palette) \<in> set COLOR_SCHEMES)
       \<or> (\<exists>name. color_scheme = SchemeName name \<and> name \<notin> set (map fst COLOR_SCHEMES)
             \<and> (''corporate'', palette) \<in> set COLOR_SCHEMES)"
  shows "\<exists>result.
      get_gradient_colors color_scheme num_categories = Inr result
    \<and> length result = num_categories
    \<and> (num_categories \<le> length palette \<longrightarrow> result = take num_categories palette)
    \<and> (length palette < num_categories \<longrightarrow>
         result = map (\<lambda>i. Gradient (hd palette) (last palette) i (num_categories - 1))
                    [0..<num_categories])"
proof -
  from assms(2) have selected: "selected_colors color_scheme = Inr palette"
    by (auto simp add: selected_colors_entry selected_colors_fallback)
      (simp add: selected_colors_def)
  from assms(2) scheme_sizes have "palette \<noteq> []"
    by fastforce
  from get_gradient_colors_length [OF selected this, of num_categories] show ?thesis
    by blast
qed

theorem get_gradient_colors_supplies_every_series_witness:
  "get_gradient_colors (SchemeList [Color ''red'', Color ''blue'']) 3 =
     Inr [Gradient (Color ''red'') (Color ''blue'') 0 2,
          Gradient (Color ''red'') (Color ''blue'') 1 2,
          Gradient (Color ''red'') (Color ''blue'') 2 2]
   \<and> get_gradient_colors (SchemeName ''pastel'') 3 =
       Inr [Color ''#66c2a5'', Color ''#fc8d62'', Color ''#8da0cb'']
   \<and> get_gradient_colors (SchemeName ''pastel'') 9 =
       Inr [Gradient (Color ''#66c2a5'') (Color ''#b3b3b3'') 0 8,
            Gradient (Color ''#66c2a5'') (Color ''#b3b3b3'') 1 8,
            Gradient (Color ''#66c2a5'') (Color ''#b3b3b3'') 2 8,
            Gradient (Color ''#66c2a5'') (Color ''#b3b3b3'') 3 8,
            Gradient (Color ''#66c2a5'') (Color ''#b3b3b3'') 4 8,
            Gradient (Color ''#66c2a5'') (Color ''#b3b3b3'') 5 8,
            Gradient (Color ''#66c2a5'') (Color ''#b3b3b3'') 6 8,
            Gradient (Color ''#66c2a5'') (Color ''#b3b3b3'') 7 8,
            Gradient (Color ''#66c2a5'') (Color ''#b3b3b3'') 8 8]
   \<and> get_gradient_colors (SchemeName ''neon'') 2 = Inr [Color ''#003f5c'', Color ''#2f4b7c'']"
proof -
  let ?pastel = "map Color [''#66c2a5'', ''#fc8d62'', ''#8da0cb'', ''#e78ac3'',
                            ''#a6d854'', ''#ffd92f'', ''#e5c494'', ''#b3b3b3'']"
  let ?corporate = "map Color [''#003f5c'', ''#2f4b7c'', ''#665191'', ''#a05195'',
                               ''#d45087'', ''#f95d6a'', ''#ff7c43'', ''#ffa600'']"
  have pastel: "(''pastel'', ?pastel) \<in> set COLOR_SCHEMES"
    and corporate: "(''corporate'', ?corporate) \<in> set COLOR_SCHEMES"
    and neon: "''neon'' \<notin> set (map fst COLOR_SCHEMES)"
    by (simp_all add: COLOR_SCHEMES_def)

  have "(SchemeList [Color ''red'', Color ''blue''] = SchemeList [Color ''red'', Color ''blue'']
        \<and> [Color ''red'', Color ''blue''] \<noteq> [])
     \<or> (\<exists>name. SchemeList [Color ''red'', Color ''blue''] = SchemeName name
           \<and> (name, [Color ''red'', Color ''blue'']) \<in> set COLOR_SCHEMES)
     \<or> (\<exists>name. SchemeList [Color ''red'', Color ''blue''] = SchemeName name
           \<and> name \<notin> set (map fst COLOR_SCHEMES)
           \<and> (''corporate'', [Color ''red'', Color ''blue'']) \<in> set COLOR_SCHEMES)"
    by simp
  from get_gradient_colors_supplies_every_series [OF _ this, of 3]
  have first: "get_gradient_colors (SchemeList [Color ''red'', Color ''blue'']) 3 =
     Inr [Gradient (Color ''red'') (Color ''blue'') 0 2,
          Gradient (Color ''red'') (Color ''blue'') 1 2,
          Gradient (Color ''red'') (Color ''blue'') 2 2]"
    by (auto simp add: upt_rec numeral_3_eq_3)

  from pastel
  have named: "(SchemeName ''pastel'' = SchemeList ?pastel \<and> ?pastel \<noteq> [])
     \<or> (\<exists>name. SchemeName ''pastel'' = SchemeName name \<and> (name, ?pastel) \<in> set COLOR_SCHEMES)
     \<or> (\<exists>name. SchemeName ''pastel'' = SchemeName name \<and> name \<notin> set (map fst COLOR_SCHEMES)
           \<and> (''corporate'', ?pastel) \<in> set COLOR_SCHEMES)"
    by blast
  from get_gradient_colors_supplies_every_series [OF _ named, of 3]
  have second: "get_gradient_colors (SchemeName ''pastel'') 3 =
       Inr [Color ''#66c2a5'', Color ''#fc8d62'', Color ''#8da0cb'']"
    by auto
  have samples: "map (\<lambda>i. Gradient (hd ?pastel) (last ?pastel) i (9 - 1)) [0..<9] =
       [Gradient (Color ''#66c2a5'') (Color ''#b3b3b3'') 0 8,
        Gradient (Color ''#66c2a5'') (Color ''#b3b3b3'') 1 8,
        Gradient (Color ''#66c2a5'') (Color ''#b3b3b3'') 2 8,
        Gradient (Color ''#66c2a5'') (Color ''#b3b3b3'') 3 8,
        Gradient (Color ''#66c2a5'') (Color ''#b3b3b3'') 4 8,
        Gradient (Color ''#66c2a5'') (Color ''#b3b3b3'') 5 8,
        Gradient (Color ''#66c2a5'') (Color ''#b3b3b3'') 6 8,
        Gradient (Color ''#66c2a5'') (Color ''#b3b3b3'') 7 8,
        Gradient (Color ''#66c2a5'') (Color ''#b3b3b3'') 8 8]"
    by code_simp
  have short: "length ?pastel < 9"
    by simp
  from get_gradient_colors_supplies_every_series [OF _ named, of 9] short
  have "get_gradient_colors (SchemeName ''pastel'') 9 =
      Inr (map (\<lambda>i. Gradient (hd ?pastel) (last ?pastel) i (9 - 1)) [0..<9])"
    by auto
  then have third: "get_gradient_colors (SchemeName ''pastel'') 9 =
       Inr [Gradient (Color ''#66c2a5'') (Color ''#b3b3b3'') 0 8,
            Gradient (Color ''#66c2a5'') (Color ''#b3b3b3'') 1 8,
            Gradient (Color ''#66c2a5'') (Color ''#b3b3b3'') 2 8,
            Gradient (Color ''#66c2a5'') (Color ''#b3b3b3'') 3 8,
            Gradient (Color ''#66c2a5'') (Color ''#b3b3b3'') 4 8,
            Gradient (Color ''#66c2a5'') (Color ''#b3b3b3'') 5 8,
            Gradient (Color ''#66c2a5'') (Color ''#b3b3b3'') 6 8,
            Gradient (Color ''#66c2a5'') (Color ''#b3b3b3'') 7 8,
            Gradient (Color ''#66c2a5'') (Color ''#b3b3b3'') 8 8]"
    by (simp only: samples)

  from neon corporate
  have unknown: "(SchemeName ''neon'' = SchemeList ?corporate \<and> ?corporate \<noteq> [])
     \<or> (\<exists>name. SchemeName ''neon'' = SchemeName name \<and> (name, ?corporate) \<in> set COLOR_SCHEMES)
     \<or> (\<exists>name. SchemeName ''neon'' = SchemeName name \<and> name \<notin> set (map fst COLOR_SCHEMES)
           \<and> (''corporate'', ?corporate) \<in> set COLOR_SCHEMES)"
    by blast
  from get_gradient_colors_supplies_every_series [OF _ unknown, of 2]
  have fourth: "get_gradient_colors (SchemeName ''neon'') 2
      = Inr [Color ''#003f5c'', Color ''#2f4b7c'']"
    by auto
  from first second third fourth show ?thesis
    by blast
qed

subsection \<open>The loop over the valid columns\<close>

lemma plot_column_fields:
  assumes "plot_column bar_heights data opts settings i col = Inr p"
  shows "p_axis p = i" and "p_column p = col"
    and "p_is_percentage p = fst (column_format (o_value_format opts) col)"
    and "p_precision p = snd (column_format (o_value_format opts) col)"
    and "p_percent_axis p = p_is_percentage p"
    and "p_grid_alpha p = (if o_grid opts then Some (grid_alpha settings) else None)"
    and "get_gradient_colors (o_color_scheme opts) (length (df_rows data)) = Inr (p_palette p)"
    and "y_axis_label (o_ylabels opts) (p_is_percentage p) col (column_values data col)
          = Inr (p_ylabel p)"
    and "(if o_show_values opts
          then format_values (bar_heights data col) (p_is_percentage p) (p_precision p)
          else Inr []) = Inr (p_value_labels p)"
  using assms unfolding plot_column_def
  by (cases "column_format (o_value_format opts) col";
      auto simp add: Let_def split: sum.splits if_splits)+

lemma plot_column_axis:
  "plot_column bar_heights data opts settings i col = Inr p \<Longrightarrow>
   plot_column bar_heights data opts settings j col = Inr (p\<lparr>p_axis := j\<rparr>)"
  unfolding plot_column_def
  by (cases "column_format (o_value_format opts) col")
    (auto simp add: Let_def split: sum.splits if_splits)

lemma plot_columns_panels:
  "plot_columns bar_heights data opts settings n_axes i cols = Inr ps \<Longrightarrow>
   map p_column ps = take (n_axes - i) cols
   \<and> map p_axis ps = [i..<i + length ps]
   \<and> (\<forall>p \<in> set ps.
         plot_column bar_heights data opts settings (p_axis p) (p_column p) = Inr p)"
proof (induction cols arbitrary: i ps)
  case Nil
  then show ?case
    by simp
next
  case (Cons col cols)
  show ?case
  proof (cases "n_axes \<le> i")
    case True
    with Cons.prems show ?thesis
      by simp
  next
    case False
    with Cons.prems obtain p rest
      where p: "plot_column bar_heights data opts settings i col = Inr p"
        and rest: "plot_columns bar_heights data opts settings n_axes (i + 1) cols = Inr rest"
        and ps: "ps = p # rest"
      by (auto split: sum.splits)
    from False have "n_axes - i = Suc (n_axes - (i + 1))"
      by simp
    then have take: "take (n_axes - i) (col # cols) = col # take (n_axes - (i + 1)) cols"
      by simp
    from plot_column_fields [OF p] have f: "p_axis p = i" "p_column p = col"
      by simp_all
    have axes: "[i..<i + length (p # rest)] = i # [i + 1..<i + 1 + length rest]"
      using upt_conv_Cons [of i "i + 1 + length rest"] by (simp del: upt_Suc)
    from Cons.IH [OF rest] p f show ?thesis
      unfolding ps take axes by simp
  qed
qed

lemma plot_columns_returns:
  "\<forall>col \<in> set (take (n_axes - i) cols).
      \<exists>p. plot_column bar_heights data opts settings 0 col = Inr p \<Longrightarrow>
   \<exists>ps. plot_columns bar_heights data opts settings n_axes i cols = Inr ps"
proof (induction cols arbitrary: i)
  case Nil
  show ?case
    by simp
next
  case (Cons col cols)
  show ?case
  proof (cases "n_axes \<le> i")
    case True
    then show ?thesis
      by simp
  next
    case False
    then have "n_axes - i = Suc (n_axes - (i + 1))"
      by simp
    then have take: "take (n_axes - i) (col # cols) = col # take (n_axes - (i + 1)) cols"
      by simp
    with Cons.prems obtain p0 where "plot_column bar_heights data opts settings 0 col = Inr p0"
      by auto
    from plot_column_axis [OF this]
    have here: "plot_column bar_heights data opts settings i col = Inr (p0\<lparr>p_axis := i\<rparr>)" .
    from Cons.prems take
    have "\<forall>c \<in> set (take (n_axes - (i + 1)) cols).
        \<exists>p. plot_column bar_heights data opts settings 0 c = Inr p"
      by simp
    from Cons.IH [OF this] obtain rest
      where "plot_columns bar_heights data opts settings n_axes (i + 1) cols = Inr rest"
      by blast
    with False here show ?thesis
      by simp
  qed
qed

lemma plot_columns_failure:
  "plot_columns bar_heights data opts settings n_axes i cols = Inl e \<Longrightarrow>
   \<exists>col \<in> set cols. \<exists>k. plot_column bar_heights data opts settings k col = Inl e"
proof (induction cols arbitrary: i)
  case Nil
  then show ?case
    by simp
next
  case (Cons col cols)
  then show ?case
    by (fastforce split: if_splits sum.splits)
qed

lemma all_integers_no_ValueError: "all_integers vs \<noteq> Inl (ValueError msg xs)"
  by (induction vs rule: all_integers.induct) auto

lemma format_value_no_ValueError: "format_value v pct prec \<noteq> Inl (ValueError msg xs)"
  by (cases "(v, pct, prec)" rule: format_value.cases) (auto simp add: Let_def)

lemma format_values_no_ValueError: "format_values vs pct prec \<noteq> Inl (ValueError msg xs)"
  by (induction vs) (auto simp add: format_value_no_ValueError split: sum.splits)

lemma dict_item_no_ValueError: "dict_item d key \<noteq> Inl (ValueError msg xs)"
  by (simp add: dict_item_def split: option.splits)

lemma get_gradient_colors_no_ValueError:
  "get_gradient_colors scheme n \<noteq> Inl (ValueError msg xs)"
  by (auto simp add: get_gradient_colors_def selected_colors_def dict_item_no_ValueError
      split: sum.splits scheme_arg.splits list.splits if_splits)

lemma y_axis_label_no_ValueError:
  "y_axis_label ylabels pct col vals \<noteq> Inl (ValueError msg xs)"
  by (auto simp add: y_axis_label_def all_integers_no_ValueError
      split: ylabels_arg.splits list.splits option.splits sum.splits bool.splits)

lemma plot_column_no_ValueError:
  "plot_column bar_heights data opts settings i col \<noteq> Inl (ValueError msg xs)"
  unfolding plot_column_def
  by (cases "column_format (o_value_format opts) col")
    (auto simp add: Let_def get_gradient_colors_no_ValueError format_values_no_ValueError
      y_axis_label_no_ValueError split: sum.splits if_splits)

lemma default_settings:
  "dict_item BG_STYLES ''default'' = Inr \<lparr>style = ''whitegrid'', grid_alpha = 3 / 10\<rparr>"
  by (simp add: dict_item_def BG_STYLES_def)

lemma bg_style_settings_returns: "\<exists>settings. bg_style_settings bg = Inr settings"
  by (simp add: bg_style_settings_def default_settings split: option.splits)

subsection \<open>The subplot grid\<close>

lemma ceiling_third: "nat \<lceil>real n / 3\<rceil> = (n + 2) div 3"
proof -
  have "\<lceil>real n / 3\<rceil> = \<lceil>real_of_int (int n) / real_of_int 3\<rceil>"
    by simp
  also have "\<dots> = - ((- int n) div 3)"
    by (simp only: ceiling_divide_eq_div)
  also have "\<dots> = int ((n + 2) div 3)"
    by presburger
  finally show ?thesis
    by simp
qed

lemma auto_layout_shape:
  "auto_layout n =
     (if n \<le> 2 then (1, n) else if n \<le> 4 then (2, 2) else (nat \<lceil>real n / 3\<rceil>, 3))"
  by (simp add: auto_layout_def ceiling_third Let_def)

lemma auto_layout_covers: "n \<le> fst (auto_layout n) * snd (auto_layout n)"
proof -
  have "n \<le> (n + 2) div 3 * 3"
    by presburger
  then show ?thesis
    by (simp add: auto_layout_def Let_def)
qed

lemma subplots_axes:
  "subplots rows cols = Inr n \<longleftrightarrow> 0 < rows \<and> 0 < cols \<and> n = rows * cols"
  by (auto simp add: subplots_def)

lemma auto_layout_positive:
  "0 < n \<Longrightarrow> 0 < fst (auto_layout n) \<and> 0 < snd (auto_layout n)"
  by (simp add: auto_layout_def Let_def div_greater_zero_iff)

lemma plot_bar_chart_figure:
  assumes "plot_bar_chart bar_heights df columns opts = Inr fig"
  shows "valid_columns df columns \<noteq> []"
    and "fig_layout fig = chosen_layout (o_layout opts) (length (valid_columns df columns))"
    and "map p_column (fig_panels fig) =
           take (fst (fig_layout fig) * snd (fig_layout fig)) (valid_columns df columns)"
    and "map p_axis (fig_panels fig) = [0..<length (fig_panels fig)]"
    and "fig_removed_axes fig =
           [length (valid_columns df columns)..<fst (fig_layout fig) * snd (fig_layout fig)]"
    and "\<exists>settings. bg_style_settings (o_bg_style opts) = Inr settings
           \<and> fig_style fig = style settings
           \<and> (\<forall>p \<in> set (fig_panels fig).
                 plot_column bar_heights df opts settings (p_axis p) (p_column p) = Inr p)"
proof -
  let ?valid = "valid_columns df columns"
  let ?shape = "chosen_layout (o_layout opts) (length ?valid)"
  from assms show ne: "?valid \<noteq> []"
    by (auto simp add: plot_bar_chart_def Let_def split: if_splits)
  with assms obtain settings panels
    where s: "bg_style_settings (o_bg_style opts) = Inr settings"
      and ps: "plot_columns bar_heights df opts settings (fst ?shape * snd ?shape) 0 ?valid
               = Inr panels"
      and fig: "fig_layout fig = ?shape" "fig_panels fig = panels" "fig_style fig = style settings"
        "fig_removed_axes fig = [length ?valid..<fst ?shape * snd ?shape]"
    by (auto simp add: plot_bar_chart_def Let_def subplots_axes split: if_splits sum.splits)
  from fig show "fig_layout fig = ?shape"
    by simp
  from plot_columns_panels [OF ps] fig
  show "map p_column (fig_panels fig) = take (fst (fig_layout fig) * snd (fig_layout fig)) ?valid"
    and "map p_axis (fig_panels fig) = [0..<length (fig_panels fig)]"
    by simp_all
  from fig show "fig_removed_axes fig =
      [length ?valid..<fst (fig_layout fig) * snd (fig_layout fig)]"
    by simp
  from plot_columns_panels [OF ps] s fig
  show "\<exists>settings. bg_style_settings (o_bg_style opts) = Inr settings
           \<and> fig_style fig = style settings
           \<and> (\<forall>p \<in> set (fig_panels fig).
                 plot_column bar_heights df opts settings (p_axis p) (p_column p) = Inr p)"
    by auto
qed

lemma plot_bar_chart_returns:
  assumes "valid_columns df columns \<noteq> []"
    and "\<forall>col \<in> set (valid_columns df columns). \<forall>settings.
           \<exists>p. plot_column bar_heights df opts settings 0 col = Inr p"
    and "0 < fst (chosen_layout (o_layout opts) (length (valid_columns df columns)))"
    and "0 < snd (chosen_layout (o_layout opts) (length (valid_columns df columns)))"
  shows "\<exists>fig. plot_bar_chart bar_heights df columns opts = Inr fig"
proof -
  from bg_style_settings_returns obtain settings
    where s: "bg_style_settings (o_bg_style opts) = Inr settings"
    by blast
  let ?valid = "valid_columns df columns"
  let ?shape = "chosen_layout (o_layout opts) (length ?valid)"
  from assms(3,4) have grid: "subplots (fst ?shape) (snd ?shape) = Inr (fst ?shape * snd ?shape)"
    by (simp add: subplots_axes)
  from assms(2)
  have "\<forall>col \<in> set (take (fst ?shape * snd ?shape - 0) ?valid).
      \<exists>p. plot_column bar_heights df opts settings 0 col = Inr p"
    by (auto dest: in_set_takeD)
  from plot_columns_returns [OF this] obtain panels
    where "plot_columns bar_heights df opts settings (fst ?shape * snd ?shape) 0 ?valid
           = Inr panels"
    by blast
  with assms(1) s grid show ?thesis
    by (simp add: plot_bar_chart_def Let_def)
qed

text \<open>
  Claim C7. With \<^verbatim>\<open>layout\<close> None or \<^verbatim>\<open>'auto'\<close> the grid depends on the number \<open>n\<close> of
  valid columns only: \<open>(1, n)\<close> for \<open>n \<le> 2\<close>, \<open>(2, 2)\<close> for \<open>3 \<le> n \<le> 4\<close>,
  \<open>(\<lceil>n / 3\<rceil>, 3)\<close> from 5 on. The grid has at least \<open>n\<close> axes, so a returned figure
  has one subplot for every valid column, on the axes 0 to \<open>n - 1\<close> in order, and the
  axes from \<open>n\<close> on are the ones removed.
\<close>

theorem auto_layout_grid:
  assumes "o_layout opts = LayoutNone \<or> o_layout opts = LayoutAuto"
    and "plot_bar_chart bar_heights df columns opts = Inr fig"
  shows "fig_layout fig =
      (let n = length (valid_columns df columns)
       in if n \<le> 2 then (1, n) else if n \<le> 4 then (2, 2) else (nat \<lceil>real n / 3\<rceil>, 3))
    \<and> length (valid_columns df columns) \<le> fst (fig_layout fig) * snd (fig_layout fig)
    \<and> map p_column (fig_panels fig) = valid_columns df columns
    \<and> map p_axis (fig_panels fig) = [0..<length (valid_columns df columns)]
    \<and> fig_removed_axes fig =
        [length (valid_columns df columns)..<fst (fig_layout fig) * snd (fig_layout fig)]"
proof -
  let ?n = "length (valid_columns df columns)"
  note fig = plot_bar_chart_figure [OF assms(2)]
  from assms(1) fig(2) have shape: "fig_layout fig = auto_layout ?n"
    by (auto simp add: chosen_layout_def)
  then have covers: "?n \<le> fst (fig_layout fig) * snd (fig_layout fig)"
    by (simp add: auto_layout_covers)
  with fig(3) have cols: "map p_column (fig_panels fig) = valid_columns df columns"
    by simp
  then have "length (fig_panels fig) = ?n"
    by (metis length_map)
  with fig(4) have axes: "map p_axis (fig_panels fig) = [0..<?n]"
    by simp
  from shape have "fig_layout fig =
      (let n = ?n
       in if n \<le> 2 then (1, n) else if n \<le> 4 then (2, 2) else (nat \<lceil>real n / 3\<rceil>, 3))"
    by (simp only: auto_layout_shape Let_def)
  with covers cols axes fig(5) show ?thesis
    by blast
qed

theorem auto_layout_grid_witness:
  "(case plot_bar_chart cell_heights sample_frame [''Sales'', ''Growth %'', ''Units'']
           default_options of
      Inl e \<Rightarrow> False
    | Inr fig \<Rightarrow>
        fig_layout fig = (2, 2)
        \<and> map p_column (fig_panels fig) = [''Sales'', ''Growth %'', ''Units'']
        \<and> map p_axis (fig_panels fig) = [0, 1, 2]
        \<and> fig_removed_axes fig = [3])"
proof -
  let ?run = "plot_bar_chart cell_heights sample_frame [''Sales'', ''Growth %'', ''Units'']
    default_options"
  have "case ?run of Inl e \<Rightarrow> False | Inr fig \<Rightarrow> True"
    by code_simp
  then obtain fig where run: "?run = Inr fig"
    by (cases ?run) auto
  have lay: "o_layout default_options = LayoutNone \<or> o_layout default_options = LayoutAuto"
    by (simp add: default_options_def)
  have valid: "valid_columns sample_frame [''Sales'', ''Growth %'', ''Units'']
      = [''Sales'', ''Growth %'', ''Units'']"
    by (simp add: valid_columns_def sample_frame_def)
  have upt: "[0..<length [''Sales'', ''Growth %'', ''Units'']] = [0, 1, 2]"
    "[length [''Sales'', ''Growth %'', ''Units'']..<fst (2, 2) * snd (2, 2)] = [3::nat]"
    by (simp_all add: upt_rec)
  from auto_layout_grid [OF lay run]
  have "fig_layout fig = (2, 2)
    \<and> map p_column (fig_panels fig) = [''Sales'', ''Growth %'', ''Units'']
    \<and> map p_axis (fig_panels fig) = [0..<length [''Sales'', ''Growth %'', ''Units'']]
    \<and> fig_removed_axes fig =
        [length [''Sales'', ''Growth %'', ''Units'']..<fst (fig_layout fig) * snd (fig_layout fig)]"
    unfolding valid by simp
  then show ?thesis
    unfolding run using upt by auto
qed

subsection \<open>Missing columns\<close>

lemma plot_bar_chart_own_ValueError:
  "plot_bar_chart bar_heights df columns opts = Inl (ValueError msg xs)
   \<longleftrightarrow> valid_columns df columns = []
     \<and> msg = ''None of the specified columns exist in the dataframe. Available columns: ''
     \<and> xs = df_columns df"
proof
  assume raised: "plot_bar_chart bar_heights df columns opts = Inl (ValueError msg xs)"
  have "valid_columns df columns = []"
  proof (rule ccontr)
    assume valid: "valid_columns df columns \<noteq> []"
    from bg_style_settings_returns obtain settings
      where s: "bg_style_settings (o_bg_style opts) = Inr settings"
      by blast
    from raised valid s obtain n_axes
      where "plot_columns bar_heights df opts settings n_axes 0 (valid_columns df columns)
             = Inl (ValueError msg xs)"
      by (auto simp add: plot_bar_chart_def Let_def subplots_def split: sum.splits if_splits)
    from plot_columns_failure [OF this] plot_column_no_ValueError show False
      by blast
  qed
  with raised show "valid_columns df columns = []
     \<and> msg = ''None of the specified columns exist in the dataframe. Available columns: ''
     \<and> xs = df_columns df"
    by (simp add: plot_bar_chart_def)
next
  assume "valid_columns df columns = []
     \<and> msg = ''None of the specified columns exist in the dataframe. Available columns: ''
     \<and> xs = df_columns df"
  then show "plot_bar_chart bar_heights df columns opts = Inl (ValueError msg xs)"
    by (simp add: plot_bar_chart_def)
qed

lemma plot_bar_chart_empty_grid:
  assumes "valid_columns df columns \<noteq> []" and "o_layout opts = LayoutGrid rows cols"
    and "rows = 0 \<or> cols = 0"
  shows "plot_bar_chart bar_heights df columns opts = Inl
     (LibraryError ''ValueError''
        (if rows = 0 then ''Number of rows must be a positive integer, not 0''
         else ''Number of columns must be a positive integer, not 0''))"
proof -
  from bg_style_settings_returns obtain settings
    where "bg_style_settings (o_bg_style opts) = Inr settings"
    by blast
  with assms show ?thesis
    by (auto simp add: plot_bar_chart_def Let_def chosen_layout_def subplots_def)
qed

text \<open>
  Claim C8 (as stated). The chart is to be built from the valid columns that remain once
  the missing names are dropped, and a ValueError is to mean that no requested name is
  a column. With an explicit layout of one axes and two valid columns, the safety check
  of the loop ends it after the first column: the second valid column is not drawn.
  With an explicit layout without rows, \<^verbatim>\<open>plt.subplots\<close> raises ValueError although the
  requested column is valid.
\<close>

theorem explicit_layout_drops_valid_column:
  "valid_columns sample_frame [''Sales'', ''Units''] = [''Sales'', ''Units'']
   \<and> plotted_columns
        (plot_bar_chart cell_heights sample_frame [''Sales'', ''Units'']
           (default_options\<lparr>o_layout := LayoutGrid 1 1\<rparr>)) = Inr [''Sales'']
   \<and> valid_columns sample_frame [''Sales''] = [''Sales'']
   \<and> is_ValueError
        (plot_bar_chart cell_heights sample_frame [''Sales'']
           (default_options\<lparr>o_layout := LayoutGrid 0 1\<rparr>))"
  by code_simp

text \<open>
  Claim C8 (amended). \<^verbatim>\<open>plot_bar_chart\<close> raises its own ValueError, the one that lists
  the available columns, exactly when none of the requested names is a column of the
  frame. With a valid column an explicit layout without rows or without columns still
  ends in a ValueError, raised by \<^verbatim>\<open>plt.subplots\<close>. Otherwise the names missing from the
  frame are dropped, and a returned figure draws the valid columns in the requested
  order, one subplot each, as far as the grid has axes: all of them with an automatic
  layout, the first rows times cols of them with an explicit layout.
\<close>

theorem plot_bar_chart_valid_columns:
  "(plot_bar_chart bar_heights df columns opts
      = Inl (ValueError
               ''None of the specified columns exist in the dataframe. Available columns: ''
               (df_columns df))
      \<longleftrightarrow> (\<forall>col \<in> set columns. col \<notin> set (df_columns df)))
   \<and> ((\<forall>col \<in> set columns. col \<notin> set (df_columns df)) \<longrightarrow>
         is_ValueError (plot_bar_chart bar_heights df columns opts))
   \<and> (\<forall>rows cols. (\<exists>col \<in> set columns. col \<in> set (df_columns df))
         \<and> o_layout opts = LayoutGrid rows cols \<and> (rows = 0 \<or> cols = 0) \<longrightarrow>
         is_ValueError (plot_bar_chart bar_heights df columns opts)
         \<and> (\<exists>msg. plot_bar_chart bar_heights df columns opts
                   = Inl (LibraryError ''ValueError'' msg)))
   \<and> (\<forall>fig. plot_bar_chart bar_heights df columns opts = Inr fig \<longrightarrow>
         valid_columns df columns = filter (\<lambda>col. col \<in> set (df_columns df)) columns
         \<and> 0 < fst (fig_layout fig) \<and> 0 < snd (fig_layout fig)
         \<and> map p_column (fig_panels fig) =
             take (fst (fig_layout fig) * snd (fig_layout fig)) (valid_columns df columns)
         \<and> (o_layout opts = LayoutNone \<or> o_layout opts = LayoutAuto \<longrightarrow>
              map p_column (fig_panels fig) = valid_columns df columns))"
proof -
  have none: "valid_columns df columns = []
      \<longleftrightarrow> (\<forall>col \<in> set columns. col \<notin> set (df_columns df))"
    by (simp add: valid_columns_def filter_empty_conv)
  have first: "plot_bar_chart bar_heights df columns opts
      = Inl (ValueError
               ''None of the specified columns exist in the dataframe. Available columns: ''
               (df_columns df))
      \<longleftrightarrow> (\<forall>col \<in> set columns. col \<notin> set (df_columns df))"
    unfolding none [symmetric] by (simp add: plot_bar_chart_own_ValueError)
  then have raised: "is_ValueError (plot_bar_chart bar_heights df columns opts)"
    if "\<forall>col \<in> set columns. col \<notin> set (df_columns df)"
    using that by (simp add: is_ValueError_def)
  have grid: "is_ValueError (plot_bar_chart bar_heights df columns opts)
      \<and> (\<exists>msg. plot_bar_chart bar_heights df columns opts
             = Inl (LibraryError ''ValueError'' msg))"
    if "\<exists>col \<in> set columns. col \<in> set (df_columns df)"
      and "o_layout opts = LayoutGrid rows cols" and "rows = 0 \<or> cols = 0" for rows cols
  proof -
    from that(1) none have "valid_columns df columns \<noteq> []"
      by blast
    from plot_bar_chart_empty_grid [OF this that(2,3)] show ?thesis
      by (simp add: is_ValueError_def)
  qed
  have shape: "0 < fst (fig_layout fig) \<and> 0 < snd (fig_layout fig)"
    if "plot_bar_chart bar_heights df columns opts = Inr fig" for fig
  proof -
    from bg_style_settings_returns obtain settings
      where "bg_style_settings (o_bg_style opts) = Inr settings"
      by blast
    with that plot_bar_chart_figure(1,2) [OF that]
    obtain n where "subplots (fst (fig_layout fig)) (snd (fig_layout fig)) = Inr n"
      by (auto simp add: plot_bar_chart_def Let_def split: sum.splits)
    then show ?thesis
      by (simp add: subplots_axes)
  qed
  have second: "map p_column (fig_panels fig) =
      take (fst (fig_layout fig) * snd (fig_layout fig)) (valid_columns df columns)"
    if "plot_bar_chart bar_heights df columns opts = Inr fig" for fig
    using plot_bar_chart_figure(3) [OF that] .
  have third: "map p_column (fig_panels fig) = valid_columns df columns"
    if "plot_bar_chart bar_heights df columns opts = Inr fig"
      and "o_layout opts = LayoutNone \<or> o_layout opts = LayoutAuto" for fig
  proof -
    from that(2) plot_bar_chart_figure(2) [OF that(1)]
    have "fig_layout fig = auto_layout (length (valid_columns df columns))"
      by (auto simp add: chosen_layout_def)
    then have "length (valid_columns df columns) \<le> fst (fig_layout fig) * snd (fig_layout fig)"
      by (simp add: auto_layout_covers)
    with second [OF that(1)] show ?thesis
      by simp
  qed
  have def: "valid_columns df columns = filter (\<lambda>col. col \<in> set (df_columns df)) columns"
    by (simp add: valid_columns_def)
  from first raised grid shape second third def show ?thesis
    by blast
qed

theorem plot_bar_chart_valid_columns_witness:
  "plot_bar_chart cell_heights sample_frame [''Profit''] default_options
     = Inl (ValueError
              ''None of the specified columns exist in the dataframe. Available columns: ''
              [''Sales'', ''Growth %'', ''Units''])
   \<and> is_ValueError
        (plot_bar_chart cell_heights sample_frame [''Sales'']
           (default_options\<lparr>o_layout := LayoutGrid 0 1\<rparr>))
   \<and> plotted_columns
        (plot_bar_chart cell_heights sample_frame [''Units'', ''Profit'', ''Sales'']
           default_options) = Inr [''Units'', ''Sales'']"
proof -
  have missing: "\<forall>col \<in> set [''Profit'']. col \<notin> set (df_columns sample_frame)"
    by (simp add: sample_frame_def)
  have cols: "df_columns sample_frame = [''Sales'', ''Growth %'', ''Units'']"
    by (simp add: sample_frame_def)
  from plot_bar_chart_valid_columns [of cell_heights sample_frame "[''Profit'']" default_options]
    missing
  have "plot_bar_chart cell_heights sample_frame [''Profit''] default_options
     = Inl (ValueError
              ''None of the specified columns exist in the dataframe. Available columns: ''
              (df_columns sample_frame))"
    by blast
  then have first: "plot_bar_chart cell_heights sample_frame [''Profit''] default_options
     = Inl (ValueError
              ''None of the specified columns exist in the dataframe. Available columns: ''
              [''Sales'', ''Growth %'', ''Units''])"
    unfolding cols .
  have present: "\<exists>col \<in> set [''Sales'']. col \<in> set (df_columns sample_frame)"
    by (simp add: sample_frame_def)
  have empty_grid: "o_layout (default_options\<lparr>o_layout := LayoutGrid 0 1\<rparr>) = LayoutGrid 0 1"
    by simp
  from plot_bar_chart_valid_columns
    [of cell_heights sample_frame "[''Sales'']" "default_options\<lparr>o_layout := LayoutGrid 0 1\<rparr>"]
    present empty_grid
  have zero: "is_ValueError
      (plot_bar_chart cell_heights sample_frame [''Sales'']
         (default_options\<lparr>o_layout := LayoutGrid 0 1\<rparr>))"
    by blast
  let ?run = "plot_bar_chart cell_heights sample_frame [''Units'', ''Profit'', ''Sales'']
    default_options"
  have "case ?run of Inl e \<Rightarrow> False | Inr fig \<Rightarrow> True"
    by code_simp
  then obtain fig where run: "?run = Inr fig"
    by (cases ?run) auto
  have lay: "o_layout default_options = LayoutNone \<or> o_layout default_options = LayoutAuto"
    by (simp add: default_options_def)
  have valid: "valid_columns sample_frame [''Units'', ''Profit'', ''Sales'']
      = [''Units'', ''Sales'']"
    by (simp add: valid_columns_def sample_frame_def)
  from plot_bar_chart_valid_columns
    [of cell_heights sample_frame "[''Units'', ''Profit'', ''Sales'']" default_options]
    run lay
  have "map p_column (fig_panels fig)
      = valid_columns sample_frame [''Units'', ''Profit'', ''Sales'']"
    by blast
  with valid have "plotted_columns ?run = Inr [''Units'', ''Sales'']"
    by (simp add: plotted_columns_def run)
  with first zero show ?thesis
    by blast
qed

subsection \<open>Percentage columns\<close>










subsection \<open>Unrecognised style names\<close>

lemma plot_column_bg_style:
  "plot_column bar_heights data (opts\<lparr>o_bg_style := bg\<rparr>) settings i col
   = plot_column bar_heights data opts settings i col"
  by (simp add: plot_column_def cong: sum.case_cong prod.case_cong if_cong)

lemma plot_columns_bg_style:
  "plot_columns bar_heights data (opts\<lparr>o_bg_style := bg\<rparr>) settings n_axes i cols
   = plot_columns bar_heights data opts settings n_axes i cols"
proof (induction cols arbitrary: i)
  case Nil
  show ?case
    by simp
next
  case (Cons col cols)
  show ?case
    by (simp only: plot_columns.simps plot_column_bg_style Cons.IH)
qed

lemma plot_bar_chart_bg_style:
  assumes "bg_style_settings bg = bg_style_settings bg'"
  shows "plot_bar_chart bar_heights df columns (opts\<lparr>o_bg_style := bg\<rparr>)
   = plot_bar_chart bar_heights df columns (opts\<lparr>o_bg_style := bg'\<rparr>)"
proof -
  have "plot_bar_chart bar_heights df columns (opts\<lparr>o_bg_style := b\<rparr>) =
     (let data = df;
          valid_columns = valid_columns data columns
      in if valid_columns = [] then
           Inl (ValueError
             ''None of the specified columns exist in the dataframe. Available columns: ''
             (df_columns data))
         else
           (let grid_shape = chosen_layout (o_layout opts) (length valid_columns)
            in case bg_style_settings b of
                 Inl e \<Rightarrow> Inl e
               | Inr settings \<Rightarrow>
                   (case subplots (fst grid_shape) (snd grid_shape) of
                      Inl e \<Rightarrow> Inl e
                    | Inr n_axes \<Rightarrow>
                        (case plot_columns bar_heights data opts settings n_axes 0
                                valid_columns of
                           Inl e \<Rightarrow> Inl e
                         | Inr panels \<Rightarrow>
                             Inr \<lparr>fig_layout = grid_shape,
                                  fig_style = style settings,
                                  fig_panels = panels,
                                  fig_removed_axes = [length valid_columns..<n_axes],
                                  fig_title = truthy (o_title opts),
                                  fig_subtitle =
                                    (case truthy (o_title opts) of
                                       None \<Rightarrow> None
                                     | Some t \<Rightarrow> truthy (o_subtitle opts)),
                                  fig_saved_to = truthy (o_save_path opts)\<rparr>))))" for b
    by (simp add: plot_bar_chart_def plot_columns_bg_style Let_def
        cong: sum.case_cong option.case_cong if_cong)
  then show ?thesis
    by (simp only: assms)
qed

lemma plot_column_color_scheme:
  assumes "get_gradient_colors scheme (length (df_rows data))
     = get_gradient_colors scheme' (length (df_rows data))"
  shows "plot_column bar_heights data (opts\<lparr>o_color_scheme := scheme\<rparr>) settings i col
   = plot_column bar_heights data (opts\<lparr>o_color_scheme := scheme'\<rparr>) settings i col"
  by (simp add: plot_column_def assms cong: sum.case_cong prod.case_cong if_cong)

lemma plot_columns_color_scheme:
  assumes "get_gradient_colors scheme (length (df_rows data))
     = get_gradient_colors scheme' (length (df_rows data))"
  shows "plot_columns bar_heights data (opts\<lparr>o_color_scheme := scheme\<rparr>) settings n_axes i cols
   = plot_columns bar_heights data (opts\<lparr>o_color_scheme := scheme'\<rparr>) settings n_axes i cols"
proof (induction cols arbitrary: i)
  case Nil
  show ?case
    by simp
next
  case (Cons col cols)
  show ?case
    by (simp only: plot_columns.simps plot_column_color_scheme [OF assms] Cons.IH)
qed

lemma plot_bar_chart_color_scheme:
  assumes "get_gradient_colors scheme (length (df_rows df))
     = get_gradient_colors scheme' (length (df_rows df))"
  shows "plot_bar_chart bar_heights df columns (opts\<lparr>o_color_scheme := scheme\<rparr>)
   = plot_bar_chart bar_heights df columns (opts\<lparr>o_color_scheme := scheme'\<rparr>)"
  by (simp add: plot_bar_chart_def plot_columns_color_scheme [OF assms] Let_def
      cong: sum.case_cong option.case_cong if_cong)

lemma unknown_bg_style:
  "bg \<notin> set (map fst BG_STYLES) \<Longrightarrow>
   bg_style_settings bg = Inr \<lparr>style = ''whitegrid'', grid_alpha = 3 / 10\<rparr>"
proof -
  assume "bg \<notin> set (map fst BG_STYLES)"
  then have "map_of BG_STYLES bg = None"
    by (simp add: map_of_eq_None_iff)
  then show ?thesis
    by (simp add: bg_style_settings_def default_settings)
qed

lemma default_bg_style:
  "bg_style_settings ''default'' = Inr \<lparr>style = ''whitegrid'', grid_alpha = 3 / 10\<rparr>"
proof -
  have "map_of BG_STYLES ''default'' = Some \<lparr>style = ''whitegrid'', grid_alpha = 3 / 10\<rparr>"
    by (simp add: BG_STYLES_def)
  then show ?thesis
    by (simp add: bg_style_settings_def default_settings)
qed

lemma unknown_scheme_name:
  "name \<notin> set (map fst COLOR_SCHEMES) \<Longrightarrow>
   selected_colors (SchemeName name) = selected_colors (SchemeName ''corporate'')"
  by (simp add: selected_colors_def scheme_names)

text \<open>
  Claim C9. A background style name that is not a key of \<^verbatim>\<open>BG_STYLES\<close> gets the settings
  of \<^verbatim>\<open>'default'\<close>, and \<^verbatim>\<open>plot_bar_chart\<close> does with it what it does with \<^verbatim>\<open>'default'\<close>.
  A colour scheme name that is not a key of \<^verbatim>\<open>COLOR_SCHEMES\<close> (the argument is a name
  or a list) gets the \<^verbatim>\<open>'corporate'\<close> palette: \<^verbatim>\<open>_get_gradient_colors\<close> returns, without
  raising, what it returns for \<^verbatim>\<open>'corporate'\<close>, and so does \<^verbatim>\<open>plot_bar_chart\<close>.
\<close>

theorem unrecognised_names_fall_back:
  "(bg \<notin> set (map fst BG_STYLES) \<longrightarrow>
      bg_style_settings bg = dict_item BG_STYLES ''default''
      \<and> bg_style_settings bg = Inr \<lparr>style = ''whitegrid'', grid_alpha = 3 / 10\<rparr>
      \<and> plot_bar_chart bar_heights df columns (opts\<lparr>o_bg_style := bg\<rparr>)
          = plot_bar_chart bar_heights df columns (opts\<lparr>o_bg_style := ''default''\<rparr>))
   \<and> (name \<notin> set (map fst COLOR_SCHEMES) \<longrightarrow>
        selected_colors (SchemeName name) = dict_item COLOR_SCHEMES ''corporate''
        \<and> get_gradient_colors (SchemeName name) n
            = get_gradient_colors (SchemeName ''corporate'') n
        \<and> (\<exists>colors. get_gradient_colors (SchemeName name) n = Inr colors
              \<and> length colors = n)
        \<and> plot_bar_chart bar_heights df columns (opts\<lparr>o_color_scheme := SchemeName name\<rparr>)
            = plot_bar_chart bar_heights df columns
                (opts\<lparr>o_color_scheme := SchemeName ''corporate''\<rparr>))"
proof -
  have bg: "bg_style_settings bg = dict_item BG_STYLES ''default''
      \<and> bg_style_settings bg = Inr \<lparr>style = ''whitegrid'', grid_alpha = 3 / 10\<rparr>
      \<and> plot_bar_chart bar_heights df columns (opts\<lparr>o_bg_style := bg\<rparr>)
          = plot_bar_chart bar_heights df columns (opts\<lparr>o_bg_style := ''default''\<rparr>)"
    if "bg \<notin> set (map fst BG_STYLES)"
  proof -
    from unknown_bg_style [OF that] default_bg_style
    have "bg_style_settings bg = bg_style_settings ''default''"
      by simp
    from plot_bar_chart_bg_style [OF this] unknown_bg_style [OF that] default_settings
    show ?thesis
      by simp
  qed
  have scheme: "selected_colors (SchemeName name) = dict_item COLOR_SCHEMES ''corporate''
        \<and> get_gradient_colors (SchemeName name) n
            = get_gradient_colors (SchemeName ''corporate'') n
        \<and> (\<exists>colors. get_gradient_colors (SchemeName name) n = Inr colors
              \<and> length colors = n)
        \<and> plot_bar_chart bar_heights df columns (opts\<lparr>o_color_scheme := SchemeName name\<rparr>)
            = plot_bar_chart bar_heights df columns
                (opts\<lparr>o_color_scheme := SchemeName ''corporate''\<rparr>)"
    if "name \<notin> set (map fst COLOR_SCHEMES)"
  proof -
    from that have sel: "selected_colors (SchemeName name) = dict_item COLOR_SCHEMES ''corporate''"
      by (simp add: selected_colors_def)
    from unknown_scheme_name [OF that]
    have same: "get_gradient_colors (SchemeName name) m
        = get_gradient_colors (SchemeName ''corporate'') m" for m
      by (simp add: get_gradient_colors_def)
    from sel corporate_item
    have "selected_colors (SchemeName name) =
        Inr (map Color [''#003f5c'', ''#2f4b7c'', ''#665191'', ''#a05195'',
                        ''#d45087'', ''#f95d6a'', ''#ff7c43'', ''#ffa600''])"
      by simp
    from get_gradient_colors_length [OF this, of n]
    have "\<exists>colors. get_gradient_colors (SchemeName name) n = Inr colors \<and> length colors = n"
      by auto
    with sel same plot_bar_chart_color_scheme [OF same] show ?thesis
      by blast
  qed
  from bg scheme show ?thesis
    by blast
qed

theorem unrecognised_names_fall_back_witness:
  "bg_style_settings ''fancy'' = Inr \<lparr>style = ''whitegrid'', grid_alpha = 3 / 10\<rparr>
   \<and> plot_bar_chart cell_heights sample_frame [''Sales'']
        (default_options\<lparr>o_bg_style := ''fancy''\<rparr>)
      = plot_bar_chart cell_heights sample_frame [''Sales'']
          (default_options\<lparr>o_bg_style := ''default''\<rparr>)
   \<and> get_gradient_colors (SchemeName ''neon'') 2
      = get_gradient_colors (SchemeName ''corporate'') 2
   \<and> selected_colors (SchemeName ''neon'') = dict_item COLOR_SCHEMES ''corporate''"
proof -
  have bg: "''fancy'' \<notin> set (map fst BG_STYLES)"
    by (simp add: BG_STYLES_def)
  have name: "''neon'' \<notin> set (map fst COLOR_SCHEMES)"
    by (simp add: COLOR_SCHEMES_def)
  from unrecognised_names_fall_back
    [of "''fancy''" cell_heights sample_frame "[''Sales'']" default_options "''neon''" 2]
    bg name
  show ?thesis
    by blast
qed

subsection \<open>Save paths\<close>




lemma py_lower_append: "py_lower (xs @ ys) = py_lower xs @ py_lower ys"
  by (simp add: py_lower_def)







subsection \<open>The loop over the column groups\<close>









subsection \<open>The loop over the sheets\<close>

lemma main_loop_console:
  "main_loop bar_heights read_excel args sheets console
   = console @ concat (map (sheet_lines bar_heights read_excel args) sheets)"
proof (induction sheets arbitrary: console)
  case Nil
  show ?case
    by simp
next
  case (Cons sheet sheets)
  show ?case
    by (cases "process_sheet bar_heights read_excel args sheet")
      (simp_all add: Cons.IH sheet_lines_def)
qed

lemma started_sheets_append:
  "started_sheets (xs @ ys) = started_sheets xs @ started_sheets ys"
  by (induction xs rule: started_sheets.induct) simp_all

lemma started_sheets_lines:
  "started_sheets (concat (map (sheet_lines bar_heights read_excel args) sheets)) = sheets"
proof (induction sheets)
  case Nil
  show ?case
    by simp
next
  case (Cons sheet sheets)
  then show ?case
    by (cases "process_sheet bar_heights read_excel args sheet")
      (simp_all add: sheet_lines_def)
qed

text \<open>
  Claim C3. Once the workbook is open, \<^verbatim>\<open>main\<close> ends normally whatever happens to the
  single sheets. For every sheet of the list, in order, the console shows that its
  processing started; a sheet whose loading or dashboard raised an exception gets the
  line \<^verbatim>\<open>Error processing sheet ...\<close> with its name and the exception, and the sheets
  after it are processed all the same.
\<close>

theorem per_sheet_exceptions_caught:
  assumes "sheet_names = Inr names"
  shows "\<exists>console.
      main bar_heights sheet_names read_excel args = Inr console
    \<and> console = concat (map (sheet_lines bar_heights read_excel args)
                          (sheets_to_process args names))
                @ [All_dashboards_exported (a_output args)]
    \<and> started_sheets console = sheets_to_process args names
    \<and> (\<forall>sheet \<in> set (sheets_to_process args names). \<forall>e.
          process_sheet bar_heights read_excel args sheet = Inl e \<longrightarrow>
          Error_processing_sheet sheet e \<in> set console)"
proof -
  let ?sheets = "sheets_to_process args names"
  let ?console = "concat (map (sheet_lines bar_heights read_excel args) ?sheets)
    @ [All_dashboards_exported (a_output args)]"
  from assms have run: "main bar_heights sheet_names read_excel args = Inr ?console"
    by (simp add: main_def main_loop_console)
  have started: "started_sheets ?console = ?sheets"
    by (simp add: started_sheets_append started_sheets_lines)
  have caught: "Error_processing_sheet sheet e \<in> set ?console"
    if "sheet \<in> set ?sheets" and "process_sheet bar_heights read_excel args sheet = Inl e"
    for sheet e
  proof -
    from that(2) have "Error_processing_sheet sheet e
        \<in> set (sheet_lines bar_heights read_excel args sheet)"
      by (simp add: sheet_lines_def)
    with that(1) show ?thesis
      by auto
  qed
  from run started caught show ?thesis
    by blast
qed

theorem per_sheet_exceptions_caught_witness:
  "main cell_heights (Inr [''Broken'', ''Q1'', ''Empty'', ''Q2'']) sample_read_excel sample_args
   = Inr [Processing_sheet ''Broken'',
          Error_processing_sheet ''Broken''
            (LibraryError ''ValueError'' ''Index Category invalid''),
          Processing_sheet ''Q1'', Generated_chart_groups 1 ''Q1'',
          Processing_sheet ''Empty'', Error_processing_sheet ''Empty'' IndexError,
          Processing_sheet ''Q2'', Generated_chart_groups 1 ''Q2'',
          All_dashboards_exported ''./exports'']"
proof -
  let ?names = "[''Broken'', ''Q1'', ''Empty'', ''Q2'']"
  from per_sheet_exceptions_caught [OF refl, of cell_heights ?names sample_read_excel sample_args]
  have "main cell_heights (Inr ?names) sample_read_excel sample_args
      = Inr (concat (map (sheet_lines cell_heights sample_read_excel sample_args)
                      (sheets_to_process sample_args ?names))
             @ [All_dashboards_exported (a_output sample_args)])"
    by auto
  moreover have "concat (map (sheet_lines cell_heights sample_read_excel sample_args)
                      (sheets_to_process sample_args ?names))
             @ [All_dashboards_exported (a_output sample_args)]
    = [Processing_sheet ''Broken'',
          Error_processing_sheet ''Broken''
            (LibraryError ''ValueError'' ''Index Category invalid''),
          Processing_sheet ''Q1'', Generated_chart_groups 1 ''Q1'',
          Processing_sheet ''Empty'', Error_processing_sheet ''Empty'' IndexError,
          Processing_sheet ''Q2'', Generated_chart_groups 1 ''Q2'',
          All_dashboards_exported ''./exports'']"
    by code_simp
  ultimately show ?thesis
    by simp
qed

subsection \<open>Removing the rows labelled \<^verbatim>\<open>Sub total\<close>\<close>













end
